theory Spec2Isabelle
  imports Complex_Main "HOL-Library.Log_Nat"
begin

section \<open>Python values, failures and configuration mappings\<close>

text \<open>
  A configuration is a Python \<^verbatim>\<open>dict\<close> from string keys to scalars, sequences
  or nested mappings. The values are modelled untyped, as Python has them: the code
  distinguishes an \<^verbatim>\<open>int\<close> from a tuple (\<^verbatim>\<open>isinstance(strides, int)\<close>),
  takes \<^verbatim>\<open>len\<close> of sequences and indexes them. A float is a finite double,
  represented by the rational number it denotes.
\<close>

datatype pyval =
    VNone
  | VInt int
  | VFloat rat
  | VStr string
  | VList "pyval list"
  | VTuple "pyval list"
  | VDict "(string \<times> pyval) list"

text \<open>Every \<^verbatim>\<open>raise\<close>, failed \<^verbatim>\<open>assert\<close> and failed lookup is a value.\<close>

datatype error =
    KeyError pyval
  | ValueError string
  | TypeError
  | IndexError
  | ZeroDivisionError
  | OverflowError
  | AssertionError

type_synonym config = "string \<rightharpoonup> pyval"

type_synonym shape = "int list"

type_synonym cost = "string \<rightharpoonup> int"

text \<open>Sequencing of computations that may raise: the first failure propagates.\<close>

definition bindE :: "error + 'a \<Rightarrow> ('a \<Rightarrow> error + 'b) \<Rightarrow> error + 'b" where
  "bindE m f = (case m of Inl e \<Rightarrow> Inl e | Inr x \<Rightarrow> f x)"

text \<open>\<^verbatim>\<open>model_config[key]\<close>: a missing key raises \<^verbatim>\<open>KeyError(key)\<close>.\<close>

definition lookup :: "config \<Rightarrow> string \<Rightarrow> error + pyval" where
  "lookup model_config key =
     (case model_config key of None \<Rightarrow> Inl (KeyError (VStr key)) | Some v \<Rightarrow> Inr v)"

text \<open>\<^verbatim>\<open>model_config.get(key, default)\<close>: never raises.\<close>

definition get_default :: "config \<Rightarrow> string \<Rightarrow> pyval \<Rightarrow> pyval" where
  "get_default model_config key dflt =
     (case model_config key of None \<Rightarrow> dflt | Some v \<Rightarrow> v)"

section \<open>Python built-ins used by the code\<close>

text \<open>
  \<^verbatim>\<open>range(n)\<close> as the number of iterations of a \<^verbatim>\<open>for\<close> loop: a negative
  count gives none, a value that is not an integer raises \<^verbatim>\<open>TypeError\<close>.
\<close>

definition py_range :: "pyval \<Rightarrow> error + nat" where
  "py_range n = (case n of VInt k \<Rightarrow> Inr (nat k) | _ \<Rightarrow> Inl TypeError)"

text \<open>\<^verbatim>\<open>len(v)\<close>: defined for the sized values, \<^verbatim>\<open>TypeError\<close> otherwise.\<close>

definition py_len :: "pyval \<Rightarrow> error + nat" where
  "py_len v =
     (case v of
        VList xs \<Rightarrow> Inr (length xs)
      | VTuple xs \<Rightarrow> Inr (length xs)
      | VStr cs \<Rightarrow> Inr (length cs)
      | VDict kvs \<Rightarrow> Inr (length kvs)
      | _ \<Rightarrow> Inl TypeError)"

text \<open>
  \<^verbatim>\<open>v[i]\<close> for a loop index \<open>i\<close> (never negative): out of range raises
  \<^verbatim>\<open>IndexError\<close>; a string-keyed mapping has no integer key.
\<close>

definition py_index :: "pyval \<Rightarrow> nat \<Rightarrow> error + pyval" where
  "py_index v i =
     (case v of
        VList xs \<Rightarrow> if i < length xs then Inr (xs ! i) else Inl IndexError
      | VTuple xs \<Rightarrow> if i < length xs then Inr (xs ! i) else Inl IndexError
      | VStr cs \<Rightarrow> if i < length cs then Inr (VStr [cs ! i]) else Inl IndexError
      | VDict kvs \<Rightarrow> Inl (KeyError (VInt (int i)))
      | _ \<Rightarrow> Inl TypeError)"

text \<open>
  \<^verbatim>\<open>v * n\<close> for an integer \<open>n\<close>: arithmetic on numbers, repetition on
  sequences (no copy at all for \<open>n \<le> 0\<close>).
\<close>

definition py_mul_int :: "pyval \<Rightarrow> int \<Rightarrow> error + pyval" where
  "py_mul_int v n =
     (case v of
        VInt a \<Rightarrow> Inr (VInt (a * n))
      | VFloat q \<Rightarrow> Inr (VFloat (q * of_int n))
      | VStr cs \<Rightarrow> Inr (VStr (concat (replicate (nat n) cs)))
      | VList xs \<Rightarrow> Inr (VList (concat (replicate (nat n) xs)))
      | VTuple xs \<Rightarrow> Inr (VTuple (concat (replicate (nat n) xs)))
      | _ \<Rightarrow> Inl TypeError)"

text \<open>\<^verbatim>\<open>int(q)\<close> of a float truncates towards zero.\<close>

definition py_trunc :: "rat \<Rightarrow> int" where
  "py_trunc q = (if 0 \<le> q then \<lfloor>q\<rfloor> else \<lceil>q\<rceil>)"

text \<open>
  Arithmetic on floats rounds its exact result to the nearest double, ties to the
  even significand (IEEE 754 binary64: 53 significant bits, and below the normal range
  the fixed spacing \<open>2 powi (- 1074)\<close> of the subnormal numbers). The result
  is the significand \<open>m\<close> times \<open>2 powi e\<close>; it is a finite double unless its
  magnitude reaches \<open>2 powi 1024\<close>, that is, unless the bit length of \<open>m\<close>
  plus \<open>e\<close> exceeds 1024.
\<close>

definition round_half_even :: "rat \<Rightarrow> int" where
  "round_half_even q =
     (let n = \<lfloor>q\<rfloor>; r = q - of_int n
      in if r < 1 / 2 then n else if 1 / 2 < r then n + 1 else if even n then n else n + 1)"

text \<open>
  For \<open>q > 0\<close>, the integer \<open>k\<close> with \<open>2 powi k \<le> q < 2 powi (k + 1)\<close>:
  the difference of the bit lengths of numerator and denominator, or one less.
\<close>

definition floor_log2 :: "rat \<Rightarrow> int" where
  "floor_log2 q =
     (let (n, d) = quotient_of q; k = bitlen n - bitlen d
      in if 2 powi k \<le> q then k else k - 1)"

definition round_double :: "rat \<Rightarrow> rat option" where
  "round_double q =
     (if q = 0 then Some 0
      else let a = \<bar>q\<bar>;
               e = max (floor_log2 a - 52) (- 1074);
               m = round_half_even (a / 2 powi e)
           in if 1024 < bitlen m + e then None else Some (sgn q * (of_int m * 2 powi e)))"

text \<open>
  \<^verbatim>\<open>float(x)\<close> of an integer, as the multiplication of an integer by a float
  converts it: an integer too large for a double raises \<^verbatim>\<open>OverflowError\<close>.
\<close>

definition py_float :: "int \<Rightarrow> error + rat" where
  "py_float x = (case round_double (of_int x) of None \<Rightarrow> Inl OverflowError | Some p \<Rightarrow> Inr p)"

text \<open>
  \<^verbatim>\<open>int(p * q)\<close> for two floats: the product is rounded to a double and then
  truncated; the integer of an infinite product raises \<^verbatim>\<open>OverflowError\<close>.
\<close>

definition py_int_of_float_product :: "rat \<Rightarrow> rat \<Rightarrow> error + int" where
  "py_int_of_float_product p q =
     (case round_double (p * q) of None \<Rightarrow> Inl OverflowError | Some r \<Rightarrow> Inr (py_trunc r))"

text \<open>
  \<^verbatim>\<open>int(a * b)\<close> for numbers: exact on two integers; with a float operand, the
  product of doubles. Operands that are not numbers are outside the model and are
  rejected.
\<close>

definition py_int_of_product :: "pyval \<Rightarrow> pyval \<Rightarrow> error + int" where
  "py_int_of_product a b =
     (case (a, b) of
        (VInt x, VInt y) \<Rightarrow> Inr (x * y)
      | (VInt x, VFloat q) \<Rightarrow> bindE (py_float x) (\<lambda>p. py_int_of_float_product p q)
      | (VFloat p, VInt y) \<Rightarrow> bindE (py_float y) (\<lambda>q. py_int_of_float_product p q)
      | (VFloat p, VFloat q) \<Rightarrow> py_int_of_float_product p q
      | _ \<Rightarrow> Inl TypeError)"

text \<open>\<^verbatim>\<open>a // b\<close>: floor division; by zero it raises.\<close>

definition py_floordiv :: "pyval \<Rightarrow> pyval \<Rightarrow> error + pyval" where
  "py_floordiv a b =
     (case (a, b) of
        (VInt x, VInt y) \<Rightarrow> if y = 0 then Inl ZeroDivisionError else Inr (VInt (x div y))
      | (VInt x, VFloat q) \<Rightarrow>
          if q = 0 then Inl ZeroDivisionError else Inr (VFloat (of_int \<lfloor>of_int x / q\<rfloor>))
      | (VFloat p, VInt y) \<Rightarrow>
          if y = 0 then Inl ZeroDivisionError else Inr (VFloat (of_int \<lfloor>p / of_int y\<rfloor>))
      | (VFloat p, VFloat q) \<Rightarrow>
          if q = 0 then Inl ZeroDivisionError else Inr (VFloat (of_int \<lfloor>p / q\<rfloor>))
      | _ \<Rightarrow> Inl TypeError)"

text \<open>\<^verbatim>\<open>isinstance(v, int)\<close>.\<close>

definition isinstance_int :: "pyval \<Rightarrow> bool" where
  "isinstance_int v = (case v of VInt k \<Rightarrow> True | _ \<Rightarrow> False)"

text \<open>\<^verbatim>\<open>v == n\<close> for an integer \<open>n\<close>: true of the numbers equal to it.\<close>

definition py_eq_int :: "pyval \<Rightarrow> int \<Rightarrow> bool" where
  "py_eq_int v n = (case v of VInt k \<Rightarrow> k = n | VFloat q \<Rightarrow> q = of_int n | _ \<Rightarrow> False)"

text \<open>
  \<^verbatim>\<open>v == (1, 1)\<close>: true of the tuples of two numbers equal to one; a list is
  never equal to a tuple.
\<close>

definition py_eq_ones :: "pyval \<Rightarrow> bool" where
  "py_eq_ones v = (case v of VTuple [a, b] \<Rightarrow> py_eq_int a 1 \<and> py_eq_int b 1 | _ \<Rightarrow> False)"

section \<open>Keras layers and symbolic tensors\<close>

text \<open>
  The block constructors build their pipelines from Keras layers. A layer is modelled
  by its constructor arguments and by the rule that gives the shape of its output from
  the shape of its input. Shapes exclude the batch dimension and hold known sizes.
  The layers are those of \<^verbatim>\<open>tensorflow.keras\<close> in TensorFlow 2, which the imports
  of the module and its use of \<^verbatim>\<open>MultiHeadAttention\<close> and of the \<^verbatim>\<open>groups\<close> of
  \<^verbatim>\<open>Conv2D\<close> fix. A constructor accepts the arguments that are valid beyond doubt
  (positive integer sizes, a known activation name, a dropout rate in [0, 1)) and
  rejects every other argument, also where Keras would coerce it.
\<close>

datatype padding = Valid | Same

datatype layer =
    LConv2D int "int \<times> int" "int \<times> int" padding int
  | LBatchNormalization
  | LActivation pyval
  | LMaxPooling2D "int \<times> int"
  | LDropout pyval
  | LMultiHeadAttention int int pyval
  | LLayerNormalization
  | LDense int pyval

text \<open>
  A symbolic tensor records how it was built: from an input of a given shape, by
  calling a layer, by calling an attention layer on a query and a value, or by adding
  two tensors.
\<close>

datatype tensor =
    Input shape
  | Call layer tensor
  | Call2 layer tensor tensor
  | Plus tensor tensor

text \<open>
  Keras normalises an argument that is an integer or a pair of integers to a pair; the
  sizes must be positive. Every argument it rejects raises \<^verbatim>\<open>ValueError\<close>.
\<close>

definition normalize_pair :: "pyval \<Rightarrow> error + int \<times> int" where
  "normalize_pair v =
     (case v of
        VInt k \<Rightarrow> if 0 < k then Inr (k, k) else Inl (ValueError ''normalize_tuple'')
      | VTuple [VInt a, VInt b] \<Rightarrow>
          if 0 < a \<and> 0 < b then Inr (a, b) else Inl (ValueError ''normalize_tuple'')
      | VList [VInt a, VInt b] \<Rightarrow>
          if 0 < a \<and> 0 < b then Inr (a, b) else Inl (ValueError ''normalize_tuple'')
      | _ \<Rightarrow> Inl (ValueError ''normalize_tuple''))"

definition positive_int :: "pyval \<Rightarrow> error + int" where
  "positive_int v =
     (case v of
        VInt k \<Rightarrow> if 0 < k then Inr k else Inl (ValueError ''not positive'')
      | _ \<Rightarrow> Inl TypeError)"

text \<open>
  \<^verbatim>\<open>Conv2D(filters, kernel_size, strides, padding=..., groups=...)\<close>; the number
  of filters must be divisible by the number of groups.
\<close>

definition Conv2D :: "pyval \<Rightarrow> pyval \<Rightarrow> pyval \<Rightarrow> padding \<Rightarrow> pyval \<Rightarrow> error + layer" where
  "Conv2D filters kernel_size strides pad groups =
     bindE (positive_int filters) (\<lambda>f.
     bindE (normalize_pair kernel_size) (\<lambda>k.
     bindE (normalize_pair strides) (\<lambda>s.
     bindE (positive_int groups) (\<lambda>g.
       if f mod g = 0 then Inr (LConv2D f k s pad g)
       else Inl (ValueError ''filters not divisible by groups'')))))"

definition MaxPooling2D :: "pyval \<Rightarrow> error + layer" where
  "MaxPooling2D pool_size = bindE (normalize_pair pool_size) (\<lambda>p. Inr (LMaxPooling2D p))"

text \<open>
  \<^verbatim>\<open>activations.get(identifier)\<close>: \<^verbatim>\<open>None\<close> is the linear activation and a
  string must name an activation; the names are those every TensorFlow 2 release with
  \<^verbatim>\<open>MultiHeadAttention\<close> knows.
\<close>

definition activation_names :: "string list" where
  "activation_names =
     [''softmax'', ''elu'', ''selu'', ''softplus'', ''softsign'', ''swish'', ''relu'', ''gelu'',
      ''tanh'', ''sigmoid'', ''exponential'', ''hard_sigmoid'', ''linear'']"

definition activations_get :: "pyval \<Rightarrow> error + pyval" where
  "activations_get identifier =
     (case identifier of
        VNone \<Rightarrow> Inr (VStr ''linear'')
      | VStr name \<Rightarrow>
          if name \<in> set activation_names then Inr (VStr name)
          else Inl (ValueError ''unknown activation function'')
      | _ \<Rightarrow> Inl TypeError)"

definition Activation :: "pyval \<Rightarrow> error + layer" where
  "Activation activation = bindE (activations_get activation) (\<lambda>a. Inr (LActivation a))"

text \<open>
  \<^verbatim>\<open>Dropout(rate)\<close>: the rate is a number, at least 0 and below 1, as the
  dropout operation requires.
\<close>

definition dropout_rate_ok :: "pyval \<Rightarrow> error + pyval" where
  "dropout_rate_ok rate =
     (case rate of
        VInt k \<Rightarrow> if k = 0 then Inr rate else Inl (ValueError ''invalid rate'')
      | VFloat q \<Rightarrow> if 0 \<le> q \<and> q < 1 then Inr rate else Inl (ValueError ''invalid rate'')
      | _ \<Rightarrow> Inl TypeError)"

definition Dropout :: "pyval \<Rightarrow> error + layer" where
  "Dropout rate = bindE (dropout_rate_ok rate) (\<lambda>r. Inr (LDropout r))"

text \<open>\<^verbatim>\<open>Dense(units, activation=activation)\<close>.\<close>

definition Dense :: "pyval \<Rightarrow> pyval \<Rightarrow> error + layer" where
  "Dense units activation =
     bindE (positive_int units) (\<lambda>u.
     bindE (activations_get activation) (\<lambda>a. Inr (LDense u a)))"

text \<open>\<^verbatim>\<open>MultiHeadAttention(num_heads, key_dim, dropout=dropout)\<close>.\<close>

definition MultiHeadAttention :: "pyval \<Rightarrow> pyval \<Rightarrow> pyval \<Rightarrow> error + layer" where
  "MultiHeadAttention num_heads key_dim dropout =
     bindE (positive_int num_heads) (\<lambda>n.
     bindE (positive_int key_dim) (\<lambda>k.
     bindE (dropout_rate_ok dropout) (\<lambda>r. Inr (LMultiHeadAttention n k r))))"

text \<open>
  The length of one spatial dimension after a convolution or a pooling window of size
  \<open>k\<close> moved by \<open>s\<close>: \<open>\<lceil>n / s\<rceil>\<close> with padding \<^verbatim>\<open>same\<close>,
  \<open>\<lfloor>(n - k) / s\<rfloor> + 1\<close> with padding \<^verbatim>\<open>valid\<close>.
\<close>

definition out_length :: "padding \<Rightarrow> int \<Rightarrow> int \<Rightarrow> int \<Rightarrow> int" where
  "out_length pad n k s = (case pad of Same \<Rightarrow> (n + s - 1) div s | Valid \<Rightarrow> (n - k) div s + 1)"

definition window_shape ::
  "padding \<Rightarrow> int \<times> int \<Rightarrow> int \<times> int \<Rightarrow> int \<Rightarrow> int \<Rightarrow> int \<Rightarrow> error + shape" where
  "window_shape pad k s h w c =
     (let h' = out_length pad h (fst k) (fst s); w' = out_length pad w (snd k) (snd s)
      in if 0 < h' \<and> 0 < w' then Inr [h', w', c]
         else Inl (ValueError ''output dimension not positive''))"

text \<open>
  The shape a layer gives to its output. Convolution and pooling take a feature map
  (height, width, channels); the default pooling stride is the pool size and the default
  pooling padding is \<^verbatim>\<open>valid\<close>; a grouped convolution needs its input channels
  divisible by the groups. Normalisation, activation and dropout keep the shape; a
  dense layer replaces the last dimension.
\<close>

fun layer_shape :: "layer \<Rightarrow> shape \<Rightarrow> error + shape" where
  "layer_shape (LConv2D f k s pad g) [h, w, c] =
     (if c mod g = 0 then window_shape pad k s h w f
      else Inl (ValueError ''channels not divisible by groups''))"
| "layer_shape (LConv2D f k s pad g) sh = Inl (ValueError ''expected a feature map'')"
| "layer_shape (LMaxPooling2D p) [h, w, c] = window_shape Valid p p h w c"
| "layer_shape (LMaxPooling2D p) sh = Inl (ValueError ''expected a feature map'')"
| "layer_shape (LDense u a) [] = Inl (ValueError ''expected a last dimension'')"
| "layer_shape (LDense u a) sh = Inr (butlast sh @ [u])"
| "layer_shape (LMultiHeadAttention n k r) sh = Inl TypeError"
| "layer_shape LBatchNormalization sh = Inr sh"
| "layer_shape (LActivation a) sh = Inr sh"
| "layer_shape (LDropout r) sh = Inr sh"
| "layer_shape LLayerNormalization sh = Inr sh"

text \<open>
  An attention layer called on a query and a value gives its output the shape of the
  query; both are sequences of feature vectors (a tensor without a sequence dimension
  raises \<^verbatim>\<open>IndexError\<close> when the layer is built). The layer attends over
  every dimension but the batch and the feature dimension and names each dimension of
  its products by a lower-case letter: a query of more than 12 dimensions besides the
  batch runs out of letters, which raises \<^verbatim>\<open>IndexError\<close> too. The value must
  have as many dimensions as the query. No other layer takes two tensors.
\<close>

fun attention_shape :: "layer \<Rightarrow> shape \<Rightarrow> shape \<Rightarrow> error + shape" where
  "attention_shape (LMultiHeadAttention n k r) q v =
     (if length q < 2 \<or> length v < 2 \<or> 12 < length q then Inl IndexError
      else if length q \<noteq> length v then Inl (ValueError ''ranks of query and value differ'')
      else Inr q)"
| "attention_shape l q v = Inl TypeError"

text \<open>
  Addition broadcasts: two shapes of the same rank are added when, at every position,
  the sizes agree or one of them is 1.
\<close>

fun broadcast :: "shape \<Rightarrow> shape \<Rightarrow> error + shape" where
  "broadcast [] [] = Inr []"
| "broadcast (a # as) (b # bs) =
     (if a = b \<or> b = 1 then
        (case broadcast as bs of Inl e \<Rightarrow> Inl e | Inr cs \<Rightarrow> Inr (a # cs))
      else if a = 1 then
        (case broadcast as bs of Inl e \<Rightarrow> Inl e | Inr cs \<Rightarrow> Inr (b # cs))
      else Inl (ValueError ''shapes cannot be added''))"
| "broadcast as bs = Inl (ValueError ''shapes cannot be added'')"

primrec shape_of :: "tensor \<Rightarrow> error + shape" where
  "shape_of (Input sh) = Inr sh"
| "shape_of (Call l x) = (case shape_of x of Inl e \<Rightarrow> Inl e | Inr sh \<Rightarrow> layer_shape l sh)"
| "shape_of (Call2 l q v) =
     (case shape_of q of
        Inl e \<Rightarrow> Inl e
      | Inr sq \<Rightarrow> (case shape_of v of Inl e \<Rightarrow> Inl e | Inr sv \<Rightarrow> attention_shape l sq sv))"
| "shape_of (Plus a b) =
     (case shape_of a of
        Inl e \<Rightarrow> Inl e
      | Inr sa \<Rightarrow> (case shape_of b of Inl e \<Rightarrow> Inl e | Inr sb \<Rightarrow> broadcast sa sb))"

text \<open>Calling a layer on a tensor fails when the layer rejects the tensor's shape.\<close>

definition keras_call :: "layer \<Rightarrow> tensor \<Rightarrow> error + tensor" where
  "keras_call l x = bindE (shape_of (Call l x)) (\<lambda>sh. Inr (Call l x))"

definition keras_call2 :: "layer \<Rightarrow> tensor \<Rightarrow> tensor \<Rightarrow> error + tensor" where
  "keras_call2 l q v = bindE (shape_of (Call2 l q v)) (\<lambda>sh. Inr (Call2 l q v))"

text \<open>\<^verbatim>\<open>a + b\<close> on tensors.\<close>

definition tensor_add :: "tensor \<Rightarrow> tensor \<Rightarrow> error + tensor" where
  "tensor_add a b = bindE (shape_of (Plus a b)) (\<lambda>sh. Inr (Plus a b))"

text \<open>
  \<^verbatim>\<open>inputs.shape[-1]\<close>: the last dimension. The shape of a Keras tensor starts
  with the batch dimension, of unknown size \<^verbatim>\<open>None\<close>, which is the last one when
  there is no other.
\<close>

definition last_dim :: "shape \<Rightarrow> pyval" where
  "last_dim sh = (if sh = [] then VNone else VInt (last sh))"

text \<open>\<^verbatim>\<open>d == v\<close> for a dimension \<open>d\<close>, an integer or \<^verbatim>\<open>None\<close>.\<close>

definition dim_eq :: "pyval \<Rightarrow> pyval \<Rightarrow> bool" where
  "dim_eq d v = (case d of VInt n \<Rightarrow> py_eq_int v n | _ \<Rightarrow> v = d)"

text \<open>
  A regularisation penalty must be a number; \<^verbatim>\<open>None\<close> stands for 0, and any
  other value raises \<^verbatim>\<open>ValueError\<close>. The number is then tested with
  \<^verbatim>\<open>math.isinf\<close>, which converts an integer to a float and raises
  \<^verbatim>\<open>OverflowError\<close> when it is too large.
\<close>

definition penalty :: "pyval \<Rightarrow> error + pyval" where
  "penalty v =
     (case v of
        VNone \<Rightarrow> Inr (VFloat 0)
      | VInt k \<Rightarrow> bindE (py_float k) (\<lambda>x. Inr v)
      | VFloat q \<Rightarrow> Inr v
      | _ \<Rightarrow> Inl (ValueError ''not a valid regularization penalty number''))"

text \<open>
  \<^verbatim>\<open>tf.keras.regularizers.l1_l2(**kwargs)\<close>: the argument must be a mapping with
  no key but \<^verbatim>\<open>l1\<close> and \<^verbatim>\<open>l2\<close> (another keyword raises
  \<^verbatim>\<open>TypeError\<close>); each defaults to 0.01 and must be a valid penalty.
\<close>

definition l1_l2 :: "pyval \<Rightarrow> error + pyval \<times> pyval" where
  "l1_l2 kwargs =
     (case kwargs of
        VDict kvs \<Rightarrow>
          if set (map fst kvs) \<subseteq> {''l1'', ''l2''}
          then
            bindE (penalty (case map_of kvs ''l1'' of None \<Rightarrow> VFloat (1 / 100) | Some v \<Rightarrow> v))
              (\<lambda>l1.
            bindE (penalty (case map_of kvs ''l2'' of None \<Rightarrow> VFloat (1 / 100) | Some v \<Rightarrow> v))
              (\<lambda>l2. Inr (l1, l2)))
          else Inl TypeError
      | _ \<Rightarrow> Inl TypeError)"

definition default_regularizer :: pyval where
  "default_regularizer = VDict [(''l1'', VFloat 0), (''l2'', VFloat 0)]"

section \<open>The Cost Accumulator\<close>

text \<open>
  Modelled from the spec: \<^verbatim>\<open>dict_add\<close> is imported from the module \<^verbatim>\<open>utils\<close>,
  which is not among the source files. The specification describes it as a pure merge
  of two cost records: for every key present in either, the numeric values are summed;
  a key absent from one side is treated as zero.
\<close>

definition dict_add :: "cost \<Rightarrow> cost \<Rightarrow> cost" where
  "dict_add first second = (\<lambda>key.
     case second key of
       None \<Rightarrow> first key
     | Some y \<Rightarrow> Some (case first key of None \<Rightarrow> y | Some x \<Rightarrow> x + y))"

text \<open>The value of a key in a cost record, an absent key counting as zero.\<close>

definition value_or_zero :: "cost \<Rightarrow> string \<Rightarrow> int" where
  "value_or_zero cx key = (case cx key of None \<Rightarrow> 0 | Some x \<Rightarrow> x)"

section \<open>The heap of configuration objects\<close>

text \<open>
  The residual stage functions copy the configuration they are given and then write
  to the copy, so what they are given is a reference. The heap holds the configuration
  objects, a reference is a position in it, and \<^verbatim>\<open>copy.deepcopy\<close> allocates a new
  object with the same contents. Functions that only read their configuration take
  its contents.
\<close>

type_synonym addr = nat

type_synonym heap = "config list"

definition deepcopy :: "heap \<Rightarrow> addr \<Rightarrow> heap \<times> addr" where
  "deepcopy h a = (h @ [h ! a], length h)"

text \<open>\<^verbatim>\<open>model_config[key] = v\<close> on the object at \<open>a\<close>.\<close>

definition setitem :: "heap \<Rightarrow> addr \<Rightarrow> string \<Rightarrow> pyval \<Rightarrow> heap" where
  "setitem h a key v = h[a := (h ! a)(key \<mapsto> v)]"

section \<open>The Complexity Catalog\<close>

text \<open>
  A complexity function returns a cost record and an output shape, or fails. The
  functions of the module \<^verbatim>\<open>complexity\<close> are not among the source files: a stage
  function takes the ones it calls as parameters, under the names it calls them by.
  A block complexity function is given the contents of the configuration; it reads
  them and writes nothing.
\<close>

type_synonym complexity = "error + cost \<times> shape"

type_synonym block_complexity = "config \<Rightarrow> shape \<Rightarrow> complexity"

text \<open>
  The loop of \<^verbatim>\<open>simple_conv_stage_complexity\<close>:
  \<^verbatim>\<open>
    for i in range(depth):
       cx, shape = conv2d_complexity(shape, filters, 3, prev_cx=cx)
       cx, shape = norm_complexity(shape, prev_cx=cx)
  \<close>
\<close>

fun conv_norm_loop ::
  "(shape \<Rightarrow> pyval \<Rightarrow> pyval \<Rightarrow> cost \<Rightarrow> complexity) \<Rightarrow> (shape \<Rightarrow> cost \<Rightarrow> complexity) \<Rightarrow>
   pyval \<Rightarrow> nat \<Rightarrow> cost \<Rightarrow> shape \<Rightarrow> complexity" where
  "conv_norm_loop conv2d_complexity norm_complexity filters 0 cx shape = Inr (cx, shape)"
| "conv_norm_loop conv2d_complexity norm_complexity filters (Suc n) cx shape =
     (case bindE (conv2d_complexity shape filters (VInt 3) cx)
             (\<lambda>(cx, shape). norm_complexity shape cx) of
        Inl e \<Rightarrow> Inl e
      | Inr (cx', shape') \<Rightarrow>
          conv_norm_loop conv2d_complexity norm_complexity filters n cx' shape')"

definition simple_conv_stage_complexity ::
  "(shape \<Rightarrow> pyval \<Rightarrow> pyval \<Rightarrow> cost \<Rightarrow> complexity) \<Rightarrow> (shape \<Rightarrow> cost \<Rightarrow> complexity) \<Rightarrow>
   (shape \<Rightarrow> pyval \<Rightarrow> pyval \<Rightarrow> cost \<Rightarrow> complexity) \<Rightarrow> config \<Rightarrow> shape \<Rightarrow> complexity" where
  "simple_conv_stage_complexity conv2d_complexity norm_complexity pool2d_complexity
     model_config input_shape =
     bindE (lookup model_config ''filters'') (\<lambda>filters.
     bindE (lookup model_config ''depth'') (\<lambda>depth.
     bindE (lookup model_config ''pool_size'') (\<lambda>pool_size.
     let strides = get_default model_config ''strides'' VNone in
     bindE (py_range depth) (\<lambda>n.
     bindE (conv_norm_loop conv2d_complexity norm_complexity filters n Map.empty input_shape)
       (\<lambda>(cx, shape).
       pool2d_complexity shape pool_size strides cx)))))"

definition another_conv_stage_complexity :: "block_complexity \<Rightarrow> config \<Rightarrow> shape \<Rightarrow> complexity" where
  "another_conv_stage_complexity another_conv_block_complexity model_config input_shape =
     another_conv_block_complexity model_config input_shape"

text \<open>
  The loop of the two residual stage functions, which differ in the block function
  they call:
  \<^verbatim>\<open>
    for i in range(depth):
        cx, shape = res_bottleneck_block_complexity(model_config, shape)
        total_cx = dict_add(total_cx, cx)
        model_config['strides'] = 1
  \<close>
  Here \<^verbatim>\<open>model_config\<close> refers to the copy.
\<close>

fun residual_stage_loop ::
  "block_complexity \<Rightarrow> addr \<Rightarrow> nat \<Rightarrow> heap \<Rightarrow> cost \<Rightarrow> shape \<Rightarrow> heap \<times> complexity" where
  "residual_stage_loop block_complexity model_config 0 h total_cx shape =
     (h, Inr (total_cx, shape))"
| "residual_stage_loop block_complexity model_config (Suc n) h total_cx shape =
     (case block_complexity (h ! model_config) shape of
        Inl e \<Rightarrow> (h, Inl e)
      | Inr (cx, shape') \<Rightarrow>
          residual_stage_loop block_complexity model_config n
            (setitem h model_config ''strides'' (VInt 1)) (dict_add total_cx cx) shape')"

definition res_basic_stage_complexity ::
  "block_complexity \<Rightarrow> heap \<Rightarrow> addr \<Rightarrow> shape \<Rightarrow> heap \<times> complexity" where
  "res_basic_stage_complexity res_basic_block_complexity h model_config input_shape =
     (case lookup (h ! model_config) ''depth'' of
        Inl e \<Rightarrow> (h, Inl e)
      | Inr depth \<Rightarrow>
          (case lookup (h ! model_config) ''strides'' of
             Inl e \<Rightarrow> (h, Inl e)
           | Inr strides \<Rightarrow>
               (let (h', model_config') = deepcopy h model_config
                in case py_range depth of
                     Inl e \<Rightarrow> (h', Inl e)
                   | Inr n \<Rightarrow>
                       residual_stage_loop res_basic_block_complexity model_config' n h'
                         Map.empty input_shape)))"

definition res_bottleneck_stage_complexity ::
  "block_complexity \<Rightarrow> heap \<Rightarrow> addr \<Rightarrow> shape \<Rightarrow> heap \<times> complexity" where
  "res_bottleneck_stage_complexity res_bottleneck_block_complexity h model_config input_shape =
     (case lookup (h ! model_config) ''depth'' of
        Inl e \<Rightarrow> (h, Inl e)
      | Inr depth \<Rightarrow>
          (case lookup (h ! model_config) ''strides'' of
             Inl e \<Rightarrow> (h, Inl e)
           | Inr strides \<Rightarrow>
               (let (h', model_config') = deepcopy h model_config
                in case py_range depth of
                     Inl e \<Rightarrow> (h', Inl e)
                   | Inr n \<Rightarrow>
                       residual_stage_loop res_bottleneck_block_complexity model_config' n h'
                         Map.empty input_shape)))"

definition dense_net_stage_complexity :: "block_complexity \<Rightarrow> config \<Rightarrow> shape \<Rightarrow> complexity" where
  "dense_net_stage_complexity dense_net_block_complexity model_config input_shape =
     dense_net_block_complexity model_config input_shape"

fun sepformer_loop :: "block_complexity \<Rightarrow> config \<Rightarrow> nat \<Rightarrow> cost \<Rightarrow> shape \<Rightarrow> complexity" where
  "sepformer_loop sepformer_block_complexity model_config 0 total_cx shape =
     Inr (total_cx, shape)"
| "sepformer_loop sepformer_block_complexity model_config (Suc n) total_cx shape =
     (case sepformer_block_complexity model_config shape of
        Inl e \<Rightarrow> Inl e
      | Inr (cx, shape') \<Rightarrow>
          sepformer_loop sepformer_block_complexity model_config n (dict_add total_cx cx) shape')"

definition sepformer_stage_complexity :: "block_complexity \<Rightarrow> config \<Rightarrow> shape \<Rightarrow> complexity" where
  "sepformer_stage_complexity sepformer_block_complexity model_config input_shape =
     bindE (lookup model_config ''depth'') (\<lambda>depth.
     bindE (py_range depth) (\<lambda>n.
       sepformer_loop sepformer_block_complexity model_config n Map.empty input_shape))"

section \<open>Primitive complexity functions\<close>

text \<open>
  Modelled from the spec: \<^verbatim>\<open>conv2d_complexity\<close>, \<^verbatim>\<open>norm_complexity\<close>,
  \<^verbatim>\<open>pool2d_complexity\<close> and \<^verbatim>\<open>res_bottleneck_block_complexity\<close> belong to the
  module \<^verbatim>\<open>complexity\<close>, which is not among the source files. The specification
  gives their shape rules: a convolution assumes padding \<^verbatim>\<open>same\<close> and sets the
  channel count to the filters; normalisation keeps the shape; pooling reduces each
  spatial dimension by the pool factor, its stride defaulting to the pool size. Of the
  costs it says what they depend on (kernel size, input and output channels, groups
  and output spatial size for a convolution; the channel count for a normalisation),
  not the formulas: the records below count multiply-accumulate operations and
  parameters, and nothing proved in this theory depends on the numbers. Each function
  adds its cost to the record \<^verbatim>\<open>prev_cx\<close>.
\<close>

definition conv2d_complexity ::
  "shape \<Rightarrow> pyval \<Rightarrow> pyval \<Rightarrow> pyval \<Rightarrow> pyval \<Rightarrow> cost \<Rightarrow> complexity" where
  "conv2d_complexity input_shape filters kernel_size strides groups prev_cx =
     (case input_shape of
        [h, w, c] \<Rightarrow>
          bindE (positive_int filters) (\<lambda>f.
          bindE (normalize_pair kernel_size) (\<lambda>k.
          bindE (normalize_pair strides) (\<lambda>s.
          bindE (positive_int groups) (\<lambda>g.
            let h' = out_length Same h (fst k) (fst s);
                w' = out_length Same w (snd k) (snd s);
                weights = fst k * snd k * (c div g) * f
            in Inr (dict_add prev_cx [''flops'' \<mapsto> weights * h' * w', ''params'' \<mapsto> weights + f],
                    [h', w', f])))))
      | _ \<Rightarrow> Inl (ValueError ''expected a feature map''))"

definition norm_complexity :: "shape \<Rightarrow> cost \<Rightarrow> complexity" where
  "norm_complexity input_shape prev_cx =
     (if input_shape = [] then Inl IndexError
      else Inr (dict_add prev_cx
                  [''flops'' \<mapsto> 2 * prod_list input_shape, ''params'' \<mapsto> 2 * last input_shape],
                input_shape))"

definition pool2d_complexity :: "shape \<Rightarrow> pyval \<Rightarrow> pyval \<Rightarrow> cost \<Rightarrow> complexity" where
  "pool2d_complexity input_shape pool_size strides prev_cx =
     (case input_shape of
        [h, w, c] \<Rightarrow>
          bindE (normalize_pair pool_size) (\<lambda>p.
          bindE (if strides = VNone then Inr p else normalize_pair strides) (\<lambda>s.
            let h' = out_length Valid h (fst p) (fst s);
                w' = out_length Valid w (snd p) (snd s)
            in Inr (dict_add prev_cx [''flops'' \<mapsto> fst p * snd p * h' * w' * c],
                    [h', w', c])))
      | _ \<Rightarrow> Inl (ValueError ''expected a feature map''))"

text \<open>
  The calls \<^verbatim>\<open>conv2d_complexity(shape, filters, 3, prev_cx=cx)\<close> of the simple
  stage leave the stride and the groups at their defaults.
\<close>

definition conv2d_complexity_default :: "shape \<Rightarrow> pyval \<Rightarrow> pyval \<Rightarrow> cost \<Rightarrow> complexity" where
  "conv2d_complexity_default input_shape filters kernel_size prev_cx =
     conv2d_complexity input_shape filters kernel_size (VInt 1) (VInt 1) prev_cx"

text \<open>
  Modelled from the spec: the residual bottleneck block has three convolution stages
  (1\<times>1, 3\<times>3 grouped at the given stride, 1\<times>1), each followed by a
  normalisation cost; the cost of a shortcut convolution is added only when the stride,
  a scalar normalised to a pair, is not (1, 1) or the channel count changes; the
  bottleneck width is \<open>\<lfloor>filters \<times> bottleneck_ratio\<rfloor>\<close>.
\<close>

definition res_bottleneck_block_complexity :: block_complexity where
  "res_bottleneck_block_complexity model_config input_shape =
     bindE (lookup model_config ''filters'') (\<lambda>filters.
     bindE (lookup model_config ''strides'') (\<lambda>strides.
     bindE (lookup model_config ''groups'') (\<lambda>groups.
     bindE (lookup model_config ''bottleneck_ratio'') (\<lambda>bottleneck_ratio.
     let strides = (if isinstance_int strides then VTuple [strides, strides] else strides) in
     bindE (py_int_of_product filters bottleneck_ratio) (\<lambda>bottleneck_size.
     bindE (conv2d_complexity input_shape filters (VInt 1) (VInt 1) (VInt 1) Map.empty)
       (\<lambda>(cx, shape).
     bindE (norm_complexity shape cx) (\<lambda>(cx, shape).
     bindE (conv2d_complexity shape (VInt bottleneck_size) (VInt 3) strides groups cx)
       (\<lambda>(cx, shape).
     bindE (norm_complexity shape cx) (\<lambda>(cx, shape).
     bindE (conv2d_complexity shape filters (VInt 1) (VInt 1) (VInt 1) cx) (\<lambda>(cx, shape).
     bindE (norm_complexity shape cx) (\<lambda>(cx, shape).
       if \<not> py_eq_ones strides \<or> \<not> dim_eq (last_dim input_shape) filters then
         bindE (conv2d_complexity input_shape filters (VInt 1) strides (VInt 1) cx)
           (\<lambda>(cx, shortcut_shape). Inr (cx, shape))
       else Inr (cx, shape))))))))))))"

section \<open>The Block Catalog\<close>

subsection \<open>Convolution blocks\<close>

text \<open>
  A block constructor looks its parameters up and returns a function of the input
  tensor. The returned function is modelled by the variables it closes over and by a
  function that applies it.
\<close>

record conv_block_env =
  cb_filters :: pyval
  cb_pool_size :: pyval
  cb_dropout_rate :: pyval
  cb_kernel_regularizer :: "pyval \<times> pyval"

text \<open>
  The check the three convolution block constructors make on \<^verbatim>\<open>filters\<close> and
  \<^verbatim>\<open>pool_size\<close>; it gives the list of filters the pipeline runs over.
  \<^verbatim>\<open>
    if len(filters) == 0:
        filters = filters * len(pool_size)
    elif len(filters) != len(pool_size):
        raise ValueError("len of filters and pool_size do not match")
  \<close>
\<close>

definition match_filters :: "pyval \<Rightarrow> pyval \<Rightarrow> error + pyval" where
  "match_filters filters pool_size =
     bindE (py_len filters) (\<lambda>n.
       if n = 0 then
         bindE (py_len pool_size) (\<lambda>m. py_mul_int filters (int m))
       else
         bindE (py_len pool_size) (\<lambda>m.
           if n \<noteq> m then Inl (ValueError ''len of filters and pool_size do not match'')
           else Inr filters))"

definition simple_conv_block :: "config \<Rightarrow> error + conv_block_env" where
  "simple_conv_block model_config =
     bindE (lookup model_config ''filters'') (\<lambda>filters.
     bindE (lookup model_config ''pool_size'') (\<lambda>pool_size.
     let dropout_rate = get_default model_config ''dropout_rate'' (VFloat 0) in
     bindE (l1_l2 (get_default model_config ''kernel_regularizer'' default_regularizer))
       (\<lambda>kernel_regularizer.
     bindE (match_filters filters pool_size) (\<lambda>filters.
       Inr \<lparr>cb_filters = filters, cb_pool_size = pool_size,
            cb_dropout_rate = dropout_rate,
            cb_kernel_regularizer = kernel_regularizer\<rparr>))))"

text \<open>
  One iteration of the loop of \<^verbatim>\<open>conv_block\<close>, at index \<open>i\<close>: convolution,
  batch normalisation, activation, pooling, dropout.
\<close>

definition conv_block_step :: "conv_block_env \<Rightarrow> nat \<Rightarrow> tensor \<Rightarrow> error + tensor" where
  "conv_block_step env i x =
     bindE (py_index (cb_filters env) i) (\<lambda>f.
     bindE (Conv2D f (VInt 3) (VTuple [VInt 1, VInt 1]) Same (VInt 1)) (\<lambda>conv.
     bindE (keras_call conv x) (\<lambda>x.
     bindE (keras_call LBatchNormalization x) (\<lambda>x.
     bindE (Activation (VStr ''relu'')) (\<lambda>relu.
     bindE (keras_call relu x) (\<lambda>x.
     bindE (py_index (cb_pool_size env) i) (\<lambda>p.
     bindE (MaxPooling2D p) (\<lambda>pool.
     bindE (keras_call pool x) (\<lambda>x.
     bindE (Dropout (cb_dropout_rate env)) (\<lambda>dropout.
       keras_call dropout x))))))))))"

text \<open>The loop over the indices \<^verbatim>\<open>range(len(filters))\<close>.\<close>

fun conv_block_loop :: "conv_block_env \<Rightarrow> nat list \<Rightarrow> tensor \<Rightarrow> error + tensor" where
  "conv_block_loop env [] x = Inr x"
| "conv_block_loop env (i # rest) x =
     (case conv_block_step env i x of
        Inl e \<Rightarrow> Inl e
      | Inr x' \<Rightarrow> conv_block_loop env rest x')"

definition conv_block :: "conv_block_env \<Rightarrow> tensor \<Rightarrow> error + tensor" where
  "conv_block env inputs =
     bindE (py_len (cb_filters env)) (\<lambda>n. conv_block_loop env [0..<n] inputs)"

text \<open>
  The constructors of the dynamic and the conditional convolution block read the
  same parameters (the dynamic one an \<^verbatim>\<open>activation\<close> too). Their pipelines use
  layers of the module \<^verbatim>\<open>layers\<close>, which is not among the source files; only the
  constructors are modelled.
\<close>

definition dynamic_conv_block :: "config \<Rightarrow> error + conv_block_env \<times> pyval" where
  "dynamic_conv_block model_config =
     bindE (lookup model_config ''filters'') (\<lambda>filters.
     bindE (lookup model_config ''pool_size'') (\<lambda>pool_size.
     let dropout_rate = get_default model_config ''dropout_rate'' (VFloat 0);
         activation = get_default model_config ''activation'' (VStr ''softmax'') in
     bindE (l1_l2 (get_default model_config ''kernel_regularizer'' default_regularizer))
       (\<lambda>kernel_regularizer.
     bindE (match_filters filters pool_size) (\<lambda>filters.
       Inr (\<lparr>cb_filters = filters, cb_pool_size = pool_size,
             cb_dropout_rate = dropout_rate,
             cb_kernel_regularizer = kernel_regularizer\<rparr>, activation)))))"

definition cond_conv_block :: "config \<Rightarrow> error + conv_block_env" where
  "cond_conv_block model_config =
     bindE (lookup model_config ''filters'') (\<lambda>filters.
     bindE (lookup model_config ''pool_size'') (\<lambda>pool_size.
     let dropout_rate = get_default model_config ''dropout_rate'' (VFloat 0) in
     bindE (l1_l2 (get_default model_config ''kernel_regularizer'' default_regularizer))
       (\<lambda>kernel_regularizer.
     bindE (match_filters filters pool_size) (\<lambda>filters.
       Inr \<lparr>cb_filters = filters, cb_pool_size = pool_size,
            cb_dropout_rate = dropout_rate,
            cb_kernel_regularizer = kernel_regularizer\<rparr>))))"

subsection \<open>The residual bottleneck block and stage\<close>

record bottleneck_env =
  bn_filters :: pyval
  bn_strides :: pyval
  bn_groups :: pyval
  bn_activation :: pyval
  bn_bottleneck_size :: int

definition res_bottleneck_block :: "config \<Rightarrow> error + bottleneck_env" where
  "res_bottleneck_block model_config =
     bindE (lookup model_config ''filters'') (\<lambda>filters.
     bindE (lookup model_config ''strides'') (\<lambda>strides.
     bindE (lookup model_config ''groups'') (\<lambda>groups.
     bindE (lookup model_config ''bottleneck_ratio'') (\<lambda>bottleneck_ratio.
     let activation = get_default model_config ''activation'' (VStr ''relu'');
         strides = (if isinstance_int strides then VTuple [strides, strides] else strides) in
     bindE (py_int_of_product filters bottleneck_ratio) (\<lambda>bottleneck_size.
       Inr \<lparr>bn_filters = filters, bn_strides = strides, bn_groups = groups,
            bn_activation = activation, bn_bottleneck_size = bottleneck_size\<rparr>)))))"

text \<open>
  \<^verbatim>\<open>strides != (1, 1) or inputs.shape[-1] != filters\<close>; the second operand is
  evaluated only when the first is false.
\<close>

definition needs_projection :: "bottleneck_env \<Rightarrow> tensor \<Rightarrow> error + bool" where
  "needs_projection env inputs =
     (if \<not> py_eq_ones (bn_strides env) then Inr True
      else bindE (shape_of inputs) (\<lambda>sh. Inr (\<not> dim_eq (last_dim sh) (bn_filters env))))"

definition bottleneck_block :: "bottleneck_env \<Rightarrow> tensor \<Rightarrow> error + tensor" where
  "bottleneck_block env inputs =
     bindE (Conv2D (bn_filters env) (VInt 1) (VTuple [VInt 1, VInt 1]) Valid (VInt 1)) (\<lambda>conv1.
     bindE (keras_call conv1 inputs) (\<lambda>out.
     bindE (keras_call LBatchNormalization out) (\<lambda>out.
     bindE (Activation (bn_activation env)) (\<lambda>act1.
     bindE (keras_call act1 out) (\<lambda>out.
     bindE (Conv2D (VInt (bn_bottleneck_size env)) (VInt 3) (bn_strides env) Same (bn_groups env))
       (\<lambda>conv2.
     bindE (keras_call conv2 out) (\<lambda>out.
     bindE (keras_call LBatchNormalization out) (\<lambda>out.
     bindE (Activation (bn_activation env)) (\<lambda>act2.
     bindE (keras_call act2 out) (\<lambda>out.
     bindE (Conv2D (bn_filters env) (VInt 1) (VTuple [VInt 1, VInt 1]) Valid (VInt 1)) (\<lambda>conv3.
     bindE (keras_call conv3 out) (\<lambda>out.
     bindE (keras_call LBatchNormalization out) (\<lambda>out.
     bindE (needs_projection env inputs) (\<lambda>project.
     bindE (if project then
              bindE (Conv2D (bn_filters env) (VInt 1) (bn_strides env) Valid (VInt 1))
                (\<lambda>shortcut. keras_call shortcut inputs)
            else Inr inputs) (\<lambda>inputs.
     bindE (Activation (bn_activation env)) (\<lambda>act3.
     bindE (tensor_add out inputs) (\<lambda>added.
       keras_call act3 added)))))))))))))))))"

text \<open>
  The stage constructor keeps the depth and a reference to its own copy of the
  configuration; the returned \<^verbatim>\<open>stage\<close> writes to that copy after every block.
\<close>

record stage_env =
  st_depth :: pyval
  st_model_config :: addr

definition res_bottleneck_stage :: "heap \<Rightarrow> addr \<Rightarrow> heap \<times> (error + stage_env)" where
  "res_bottleneck_stage h model_config =
     (case lookup (h ! model_config) ''depth'' of
        Inl e \<Rightarrow> (h, Inl e)
      | Inr depth \<Rightarrow>
          (case lookup (h ! model_config) ''strides'' of
             Inl e \<Rightarrow> (h, Inl e)
           | Inr strides \<Rightarrow>
               (let (h', model_config') = deepcopy h model_config
                in (h', Inr \<lparr>st_depth = depth, st_model_config = model_config'\<rparr>))))"

fun stage_loop :: "addr \<Rightarrow> nat \<Rightarrow> heap \<Rightarrow> tensor \<Rightarrow> heap \<times> (error + tensor)" where
  "stage_loop model_config 0 h x = (h, Inr x)"
| "stage_loop model_config (Suc n) h x =
     (case bindE (res_bottleneck_block (h ! model_config)) (\<lambda>block. bottleneck_block block x) of
        Inl e \<Rightarrow> (h, Inl e)
      | Inr x' \<Rightarrow> stage_loop model_config n (setitem h model_config ''strides'' (VInt 1)) x')"

definition stage :: "stage_env \<Rightarrow> heap \<Rightarrow> tensor \<Rightarrow> heap \<times> (error + tensor)" where
  "stage env h inputs =
     (case py_range (st_depth env) of
        Inl e \<Rightarrow> (h, Inl e)
      | Inr n \<Rightarrow> stage_loop (st_model_config env) n h inputs)"

subsection \<open>Sequential and other blocks\<close>

text \<open>
  Of \<^verbatim>\<open>bidirectional_GRU_block\<close>, \<^verbatim>\<open>simple_dense_block\<close> and
  \<^verbatim>\<open>timedistributed_xception_block\<close> the constructors are modelled: the
  parameters they look up, in the order of the lookups.
\<close>

definition bidirectional_GRU_block :: "config \<Rightarrow> error + pyval \<times> pyval" where
  "bidirectional_GRU_block model_config =
     bindE (lookup model_config ''units'') (\<lambda>units_per_layer.
     let dropout_rate = get_default model_config ''dropout_rate'' (VFloat 0) in
       Inr (units_per_layer, dropout_rate))"

record transformer_env =
  te_d_model :: pyval
  te_n_head :: pyval
  te_activation :: pyval
  te_dim_feedforward :: pyval
  te_dropout_rate :: pyval

text \<open>
  The default \<^verbatim>\<open>d_model*4\<close> is an argument of \<^verbatim>\<open>get\<close>, so it is computed
  whether or not the key is present.
\<close>

definition transformer_encoder_layer :: "config \<Rightarrow> error + transformer_env" where
  "transformer_encoder_layer model_config =
     bindE (lookup model_config ''d_model'') (\<lambda>d_model.
     bindE (lookup model_config ''n_head'') (\<lambda>n_head.
     let activation = get_default model_config ''activation'' (VStr ''relu'') in
     bindE (py_mul_int d_model 4) (\<lambda>d_model4.
     let dim_feedforward = get_default model_config ''dim_feedforward'' d_model4;
         dropout_rate = get_default model_config ''dropout_rate'' (VFloat (1 / 10)) in
       Inr \<lparr>te_d_model = d_model, te_n_head = n_head, te_activation = activation,
            te_dim_feedforward = dim_feedforward, te_dropout_rate = dropout_rate\<rparr>)))"

definition block :: "transformer_env \<Rightarrow> tensor \<Rightarrow> error + tensor" where
  "block env inputs =
     bindE (shape_of inputs) (\<lambda>sh.
     if \<not> dim_eq (last_dim sh) (te_d_model env) then Inl AssertionError
     else
       let x = inputs in
       bindE (py_floordiv (te_d_model env) (te_n_head env)) (\<lambda>key_dim.
       bindE (MultiHeadAttention (te_n_head env) key_dim (te_dropout_rate env)) (\<lambda>mha.
       bindE (keras_call2 mha x x) (\<lambda>attn.
       bindE (Dropout (te_dropout_rate env)) (\<lambda>dropout1.
       bindE (keras_call dropout1 attn) (\<lambda>attn.
       bindE (tensor_add x attn) (\<lambda>added.
       bindE (keras_call LLayerNormalization added) (\<lambda>x.
       bindE (Dense (te_dim_feedforward env) (te_activation env)) (\<lambda>dense1.
       bindE (keras_call dense1 x) (\<lambda>ffn.
       bindE (Dropout (te_dropout_rate env)) (\<lambda>dropout2.
       bindE (keras_call dropout2 ffn) (\<lambda>ffn.
       bindE (Dense (te_d_model env) VNone) (\<lambda>dense2.
       bindE (keras_call dense2 ffn) (\<lambda>ffn.
       bindE (Dropout (te_dropout_rate env)) (\<lambda>dropout3.
       bindE (keras_call dropout3 ffn) (\<lambda>ffn.
       bindE (tensor_add x ffn) (\<lambda>added.
         keras_call LLayerNormalization added)))))))))))))))))"

record dense_block_env =
  db_units_per_layer :: pyval
  db_n_classes :: pyval
  db_name :: pyval
  db_activation :: pyval
  db_dropout_rate :: pyval
  db_kernel_regularizer :: "pyval \<times> pyval"

definition simple_dense_block :: "config \<Rightarrow> error + dense_block_env" where
  "simple_dense_block model_config =
     bindE (lookup model_config ''units'') (\<lambda>units_per_layer.
     bindE (lookup model_config ''n_classes'') (\<lambda>n_classes.
     let name = get_default model_config ''name'' VNone;
         activation = get_default model_config ''activation'' VNone;
         dropout_rate = get_default model_config ''dropout_rate'' (VInt 0) in
     bindE (l1_l2 (get_default model_config ''kernel_regularizer'' default_regularizer))
       (\<lambda>kernel_regularizer.
       Inr \<lparr>db_units_per_layer = units_per_layer, db_n_classes = n_classes,
            db_name = name, db_activation = activation, db_dropout_rate = dropout_rate,
            db_kernel_regularizer = kernel_regularizer\<rparr>)))"

definition timedistributed_xception_block ::
  "config \<Rightarrow> error + pyval \<times> pyval \<times> (pyval \<times> pyval)" where
  "timedistributed_xception_block model_config =
     bindE (lookup model_config ''filters'') (\<lambda>filters.
     bindE (lookup model_config ''block_num'') (\<lambda>block_num.
     bindE (l1_l2 (get_default model_config ''kernel_regularizer'' default_regularizer))
       (\<lambda>kernel_regularizer.
       Inr (filters, block_num, kernel_regularizer))))"

section \<open>Definitions used to state the properties\<close>

text \<open>
  The first of the given keys that the configuration lacks, in the order in which a
  function looks them up.
\<close>

definition first_missing :: "config \<Rightarrow> string list \<Rightarrow> string option" where
  "first_missing model_config keys = find (\<lambda>key. model_config key = None) keys"

text \<open>
  Following the spec's words for a residual stage: a per-block function is repeated,
  once for each configuration of a list; the shape threads through and the costs are
  accumulated with the Cost Accumulator.
\<close>

fun repeat_blocks :: "block_complexity \<Rightarrow> config list \<Rightarrow> cost \<Rightarrow> shape \<Rightarrow> complexity" where
  "repeat_blocks block_complexity [] total_cx shape = Inr (total_cx, shape)"
| "repeat_blocks block_complexity (c # cs) total_cx shape =
     (case block_complexity c shape of
        Inl e \<Rightarrow> Inl e
      | Inr (cx, shape') \<Rightarrow> repeat_blocks block_complexity cs (dict_add total_cx cx) shape')"

text \<open>
  The configurations of the \<open>n\<close> iterations of a stage: the given one first, then
  the one with the stride forced to 1.
\<close>

definition stage_configs :: "config \<Rightarrow> nat \<Rightarrow> config list" where
  "stage_configs model_config n =
     (case n of
        0 \<Rightarrow> []
      | Suc m \<Rightarrow> model_config # replicate m (model_config(''strides'' \<mapsto> VInt 1)))"

text \<open>Example configurations.\<close>

definition bottleneck_config :: config where
  "bottleneck_config =
     [''filters'' \<mapsto> VInt 32, ''strides'' \<mapsto> VInt 2, ''groups'' \<mapsto> VInt 1,
      ''bottleneck_ratio'' \<mapsto> VFloat (1 / 2), ''depth'' \<mapsto> VInt 3]"

text \<open>
  The configuration \<^verbatim>\<open>filters=[16,32], pool_size=[2,2]\<close>, the configuration
  \<^verbatim>\<open>filters=[16,32,64], pool_size=[2,2]\<close> whose lists differ in length, and the
  failure \<^verbatim>\<open>simple_conv_block\<close> raises for such lists.
\<close>

definition simple_conv_config :: config where
  "simple_conv_config =
     [''filters'' \<mapsto> VList [VInt 16, VInt 32], ''pool_size'' \<mapsto> VList [VInt 2, VInt 2]]"

definition mismatch_config :: config where
  "mismatch_config =
     [''filters'' \<mapsto> VList [VInt 16, VInt 32, VInt 64], ''pool_size'' \<mapsto> VList [VInt 2, VInt 2]]"

definition length_mismatch :: error where
  "length_mismatch = ValueError ''len of filters and pool_size do not match''"

text \<open>
  Following the claim's words: a scalar stride \<open>s\<close> normalised to the tuple
  \<open>(s, s)\<close>; any other value is left as it is.
\<close>

definition stride_pair :: "pyval \<Rightarrow> pyval" where
  "stride_pair strides = (case strides of VInt s \<Rightarrow> VTuple [VInt s, VInt s] | _ \<Rightarrow> strides)"

text \<open>
  The tensor that a bottleneck block adds to its main path: the second operand of the
  addition under the final activation. It is the block's input when there is no
  shortcut projection, and a convolution called on the input when there is one.
\<close>

fun shortcut_input :: "tensor \<Rightarrow> tensor option" where
  "shortcut_input (Call (LActivation a) (Plus out r)) = Some r"
| "shortcut_input y = None"

definition third_config :: config where
  "third_config =
     [''filters'' \<mapsto> VInt 3, ''strides'' \<mapsto> VInt 1, ''groups'' \<mapsto> VInt 1,
      ''bottleneck_ratio'' \<mapsto> VFloat (6004799503160661 / 18014398509481984)]"

text \<open>
  A configuration of the simple stage complexity function, with a scalar
  \<^verbatim>\<open>filters\<close>, a \<^verbatim>\<open>depth\<close> and one \<^verbatim>\<open>pool_size\<close>, and its per-layer
  form for \<^verbatim>\<open>simple_conv_block\<close>: \<^verbatim>\<open>filters=[f]*d\<close> and
  \<^verbatim>\<open>pool_size=[1]*(d-1)+[p]\<close>, \<open>d\<close> convolutions with one pooling after the
  last.
\<close>

definition scalar_config :: "int \<Rightarrow> int \<Rightarrow> int \<Rightarrow> config" where
  "scalar_config f d p = [''filters'' \<mapsto> VInt f, ''depth'' \<mapsto> VInt d, ''pool_size'' \<mapsto> VInt p]"

definition per_layer_config :: "int \<Rightarrow> int \<Rightarrow> int \<Rightarrow> config" where
  "per_layer_config f d p =
     [''filters'' \<mapsto> VList (replicate (nat d) (VInt f)),
      ''pool_size'' \<mapsto> VList (replicate (nat d - 1) (VInt 1) @ [VInt p])]"

section \<open>Basic facts\<close>

lemma bindE_Inl [simp]: "bindE (Inl e) f = Inl e"
  by (simp add: bindE_def)

lemma bindE_Inr [simp]: "bindE (Inr x) f = f x"
  by (simp add: bindE_def)

text \<open>
  The rounding at work: \<^verbatim>\<open>int(32 * 0.5)\<close> is 16; \<^verbatim>\<open>int(3 * (1/3))\<close> is 1,
  because the product of 3 and the double nearest to one third rounds to 1.0; and
  \<^verbatim>\<open>int(10 * 0.7)\<close> is 7.
\<close>

lemma bottleneck_size_half: "py_int_of_product (VInt 32) (VFloat (1 / 2)) = Inr 16"
  by code_simp

lemma bottleneck_size_third:
  "py_int_of_product (VInt 3) (VFloat (6004799503160661 / 18014398509481984)) = Inr 1"
  by code_simp

lemma bottleneck_size_seven_tenths:
  "py_int_of_product (VInt 10) (VFloat (3152519739159347 / 4503599627370496)) = Inr 7"
  by code_simp

lemma relu_known: "activations_get (VStr ''relu'') = Inr (VStr ''relu'')"
  by (simp add: activations_get_def activation_names_def)

lemma Activation_relu: "Activation (VStr ''relu'') = Inr (LActivation (VStr ''relu''))"
  by (simp add: Activation_def relu_known)

lemma Dropout_zero: "Dropout (VFloat 0) = Inr (LDropout (VFloat 0))"
  by (simp add: Dropout_def dropout_rate_ok_def)

section \<open>The Cost Accumulator is a commutative monoid\<close>

text \<open>
  Claim C7. The Cost Accumulator is commutative and associative and has the empty
  record as identity; the result has exactly the keys present in either input, and at
  each of them the sum of the two values, where a key absent from one side counts as
  zero.
\<close>

theorem dict_add_monoid:
  "dict_add a b = dict_add b a
   \<and> dict_add a (dict_add b c) = dict_add (dict_add a b) c
   \<and> dict_add a Map.empty = a
   \<and> dom (dict_add a b) = dom a \<union> dom b
   \<and> dict_add a b key =
       (if key \<in> dom a \<union> dom b
        then Some (value_or_zero a key + value_or_zero b key) else None)"
proof -
  have comm: "dict_add a b = dict_add b a"
    by (rule ext) (simp add: dict_add_def split: option.splits)
  have assoc: "dict_add a (dict_add b c) = dict_add (dict_add a b) c"
    by (rule ext) (simp add: dict_add_def split: option.splits)
  have ident: "dict_add a Map.empty = a"
    by (rule ext) (simp add: dict_add_def split: option.splits)
  have keys: "dom (dict_add a b) = dom a \<union> dom b"
    by (auto simp: dict_add_def dom_def split: option.splits)
  have summed: "dict_add a b key =
       (if key \<in> dom a \<union> dom b
        then Some (value_or_zero a key + value_or_zero b key) else None)"
    by (auto simp: dict_add_def value_or_zero_def dom_def split: option.splits)
  from comm assoc ident keys summed show ?thesis by blast
qed

section \<open>Missing and optional keys\<close>

lemma lookup_None: "cfg key = None \<Longrightarrow> lookup cfg key = Inl (KeyError (VStr key))"
  by (simp add: lookup_def)

lemma lookup_Some: "cfg key = Some v \<Longrightarrow> lookup cfg key = Inr v"
  by (simp add: lookup_def)

lemma missing_simple_conv_stage_complexity:
  "first_missing cfg [''filters'', ''depth'', ''pool_size''] = Some k \<Longrightarrow>
   simple_conv_stage_complexity c n p cfg sh = Inl (KeyError (VStr k))"
  by (auto simp: first_missing_def simple_conv_stage_complexity_def lookup_def
           split: option.splits if_splits)

lemma missing_res_basic_stage_complexity:
  "first_missing (h ! a) [''depth'', ''strides''] = Some k \<Longrightarrow>
   res_basic_stage_complexity blk h a sh = (h, Inl (KeyError (VStr k)))"
  by (auto simp: first_missing_def res_basic_stage_complexity_def lookup_def
           split: option.splits if_splits)

lemma missing_res_bottleneck_stage_complexity:
  "first_missing (h ! a) [''depth'', ''strides''] = Some k \<Longrightarrow>
   res_bottleneck_stage_complexity blk h a sh = (h, Inl (KeyError (VStr k)))"
  by (auto simp: first_missing_def res_bottleneck_stage_complexity_def lookup_def
           split: option.splits if_splits)

lemma missing_sepformer_stage_complexity:
  "first_missing cfg [''depth''] = Some k \<Longrightarrow>
   sepformer_stage_complexity blk cfg sh = Inl (KeyError (VStr k))"
  by (auto simp: first_missing_def sepformer_stage_complexity_def lookup_def
           split: option.splits if_splits)

lemma missing_simple_conv_block:
  "first_missing cfg [''filters'', ''pool_size''] = Some k \<Longrightarrow>
   simple_conv_block cfg = Inl (KeyError (VStr k))"
  by (auto simp: first_missing_def simple_conv_block_def lookup_def
           split: option.splits if_splits)

lemma missing_dynamic_conv_block:
  "first_missing cfg [''filters'', ''pool_size''] = Some k \<Longrightarrow>
   dynamic_conv_block cfg = Inl (KeyError (VStr k))"
  by (auto simp: first_missing_def dynamic_conv_block_def lookup_def
           split: option.splits if_splits)

lemma missing_cond_conv_block:
  "first_missing cfg [''filters'', ''pool_size''] = Some k \<Longrightarrow>
   cond_conv_block cfg = Inl (KeyError (VStr k))"
  by (auto simp: first_missing_def cond_conv_block_def lookup_def
           split: option.splits if_splits)

lemma missing_res_bottleneck_stage:
  "first_missing (h ! a) [''depth'', ''strides''] = Some k \<Longrightarrow>
   res_bottleneck_stage h a = (h, Inl (KeyError (VStr k)))"
  by (auto simp: first_missing_def res_bottleneck_stage_def lookup_def
           split: option.splits if_splits)

lemma missing_res_bottleneck_block:
  "first_missing cfg [''filters'', ''strides'', ''groups'', ''bottleneck_ratio''] = Some k \<Longrightarrow>
   res_bottleneck_block cfg = Inl (KeyError (VStr k))"
  by (auto simp: first_missing_def res_bottleneck_block_def lookup_def
           split: option.splits if_splits)

lemma missing_bidirectional_GRU_block:
  "first_missing cfg [''units''] = Some k \<Longrightarrow>
   bidirectional_GRU_block cfg = Inl (KeyError (VStr k))"
  by (auto simp: first_missing_def bidirectional_GRU_block_def lookup_def
           split: option.splits if_splits)

lemma missing_transformer_encoder_layer:
  "first_missing cfg [''d_model'', ''n_head''] = Some k \<Longrightarrow>
   transformer_encoder_layer cfg = Inl (KeyError (VStr k))"
  by (auto simp: first_missing_def transformer_encoder_layer_def lookup_def
           split: option.splits if_splits)

lemma missing_simple_dense_block:
  "first_missing cfg [''units'', ''n_classes''] = Some k \<Longrightarrow>
   simple_dense_block cfg = Inl (KeyError (VStr k))"
  by (auto simp: first_missing_def simple_dense_block_def lookup_def
           split: option.splits if_splits)

lemma missing_timedistributed_xception_block:
  "first_missing cfg [''filters'', ''block_num''] = Some k \<Longrightarrow>
   timedistributed_xception_block cfg = Inl (KeyError (VStr k))"
  by (auto simp: first_missing_def timedistributed_xception_block_def lookup_def
           split: option.splits if_splits)

lemma get_default_absent:
  "cfg key = None \<Longrightarrow> get_default (cfg(key \<mapsto> d)) key d' = get_default cfg key d"
  by (simp add: get_default_def)

lemma optional_strides_default:
  "cfg ''strides'' = None \<Longrightarrow>
   simple_conv_stage_complexity c n p cfg sh =
   simple_conv_stage_complexity c n p (cfg(''strides'' \<mapsto> VNone)) sh"
  by (simp add: simple_conv_stage_complexity_def lookup_def get_default_def)

lemma optional_activation_default:
  "cfg ''activation'' = None \<Longrightarrow>
   res_bottleneck_block cfg = res_bottleneck_block (cfg(''activation'' \<mapsto> VStr ''relu''))"
  by (simp add: res_bottleneck_block_def lookup_def get_default_def)


text \<open>
  Claim C8. Every stage complexity function and block constructor that looks up
  mandatory keys fails on the first of them that the configuration lacks, with a
  \<^verbatim>\<open>KeyError\<close> for that key that reaches the caller, before anything else happens
  (the heap is as it was). An absent optional key is replaced by its default: without
  \<^verbatim>\<open>strides\<close> the simple stage behaves as with \<^verbatim>\<open>strides = None\<close>, and without
  \<^verbatim>\<open>activation\<close> the bottleneck block as with \<^verbatim>\<open>'relu'\<close>.
\<close>

theorem missing_mandatory_key:
  "(first_missing cfg [''filters'', ''depth'', ''pool_size''] = Some k \<longrightarrow>
      simple_conv_stage_complexity cv nm pl cfg sh = Inl (KeyError (VStr k)))
   \<and> (first_missing (h ! a) [''depth'', ''strides''] = Some k \<longrightarrow>
      res_basic_stage_complexity blk h a sh = (h, Inl (KeyError (VStr k))))
   \<and> (first_missing (h ! a) [''depth'', ''strides''] = Some k \<longrightarrow>
      res_bottleneck_stage_complexity blk h a sh = (h, Inl (KeyError (VStr k))))
   \<and> (first_missing cfg [''depth''] = Some k \<longrightarrow>
      sepformer_stage_complexity blk cfg sh = Inl (KeyError (VStr k)))
   \<and> (first_missing cfg [''filters'', ''pool_size''] = Some k \<longrightarrow>
      simple_conv_block cfg = Inl (KeyError (VStr k))
      \<and> dynamic_conv_block cfg = Inl (KeyError (VStr k))
      \<and> cond_conv_block cfg = Inl (KeyError (VStr k)))
   \<and> (first_missing (h ! a) [''depth'', ''strides''] = Some k \<longrightarrow>
      res_bottleneck_stage h a = (h, Inl (KeyError (VStr k))))
   \<and> (first_missing cfg [''filters'', ''strides'', ''groups'', ''bottleneck_ratio''] = Some k \<longrightarrow>
      res_bottleneck_block cfg = Inl (KeyError (VStr k)))
   \<and> (first_missing cfg [''units''] = Some k \<longrightarrow>
      bidirectional_GRU_block cfg = Inl (KeyError (VStr k)))
   \<and> (first_missing cfg [''d_model'', ''n_head''] = Some k \<longrightarrow>
      transformer_encoder_layer cfg = Inl (KeyError (VStr k)))
   \<and> (first_missing cfg [''units'', ''n_classes''] = Some k \<longrightarrow>
      simple_dense_block cfg = Inl (KeyError (VStr k)))
   \<and> (first_missing cfg [''filters'', ''block_num''] = Some k \<longrightarrow>
      timedistributed_xception_block cfg = Inl (KeyError (VStr k)))
   \<and> (cfg ''strides'' = None \<longrightarrow>
      simple_conv_stage_complexity cv nm pl cfg sh =
      simple_conv_stage_complexity cv nm pl (cfg(''strides'' \<mapsto> VNone)) sh)
   \<and> (cfg ''activation'' = None \<longrightarrow>
      res_bottleneck_block cfg = res_bottleneck_block (cfg(''activation'' \<mapsto> VStr ''relu'')))"
  using missing_simple_conv_stage_complexity [of cfg k cv nm pl sh]
    missing_res_basic_stage_complexity [of h a k blk sh]
    missing_res_bottleneck_stage_complexity [of h a k blk sh]
    missing_sepformer_stage_complexity [of cfg k blk sh]
    missing_simple_conv_block [of cfg k]
    missing_dynamic_conv_block [of cfg k]
    missing_cond_conv_block [of cfg k]
    missing_res_bottleneck_stage [of h a k]
    missing_res_bottleneck_block [of cfg k]
    missing_bidirectional_GRU_block [of cfg k]
    missing_transformer_encoder_layer [of cfg k]
    missing_simple_dense_block [of cfg k]
    missing_timedistributed_xception_block [of cfg k]
    optional_strides_default [of cfg cv nm pl sh]
    optional_activation_default [of cfg]
  by blast

theorem missing_mandatory_key_witness:
  "simple_conv_stage_complexity conv2d_complexity_default norm_complexity pool2d_complexity
     [''filters'' \<mapsto> VInt 16, ''pool_size'' \<mapsto> VInt 2] [64, 64, 3] = Inl (KeyError (VStr ''depth''))
   \<and> res_bottleneck_stage_complexity res_bottleneck_block_complexity
        [[''filters'' \<mapsto> VInt 16, ''pool_size'' \<mapsto> VInt 2]] 0 [64, 64, 3] =
      ([[''filters'' \<mapsto> VInt 16, ''pool_size'' \<mapsto> VInt 2]], Inl (KeyError (VStr ''depth'')))
   \<and> res_bottleneck_block [''filters'' \<mapsto> VInt 16, ''pool_size'' \<mapsto> VInt 2] =
      Inl (KeyError (VStr ''strides''))"
  using missing_mandatory_key [of "[''filters'' \<mapsto> VInt 16, ''pool_size'' \<mapsto> VInt 2]" "''depth''"
      conv2d_complexity_default norm_complexity pool2d_complexity "[64, 64, 3]"
      "[[''filters'' \<mapsto> VInt 16, ''pool_size'' \<mapsto> VInt 2]]" 0 res_bottleneck_block_complexity]
    missing_mandatory_key [of "[''filters'' \<mapsto> VInt 16, ''pool_size'' \<mapsto> VInt 2]" "''strides''"]
  by (simp add: first_missing_def)

section \<open>The residual stages\<close>

lemma stage_configs_forced:
  "stage_configs (c(''strides'' \<mapsto> VInt 1)) n = replicate n (c(''strides'' \<mapsto> VInt 1))"
  by (cases n) (simp_all add: stage_configs_def)

lemma setitem_nth: "a < length h \<Longrightarrow> setitem h a key v ! a = (h ! a)(key \<mapsto> v)"
  by (simp add: setitem_def)

lemma length_setitem [simp]: "length (setitem h a key v) = length h"
  by (simp add: setitem_def)

lemma take_setitem: "k \<le> a \<Longrightarrow> take k (setitem h a key v) = take k h"
  by (simp add: setitem_def)

lemma residual_stage_loop_result:
  "a < length h \<Longrightarrow>
   snd (residual_stage_loop blk a n h tcx sh) = repeat_blocks blk (stage_configs (h ! a) n) tcx sh"
proof (induction n arbitrary: h tcx sh)
  case 0
  show ?case by (simp add: stage_configs_def)
next
  case (Suc n)
  show ?case
  proof (cases "blk (h ! a) sh")
    case (Inl e)
    then show ?thesis by (simp add: stage_configs_def)
  next
    case (Inr r)
    obtain cx sh' where r: "r = (cx, sh')" by (cases r)
    have len: "a < length (setitem h a ''strides'' (VInt 1))"
      using Suc.prems by simp
    have "snd (residual_stage_loop blk a (Suc n) h tcx sh) =
          snd (residual_stage_loop blk a n (setitem h a ''strides'' (VInt 1)) (dict_add tcx cx) sh')"
      using Inr r by simp
    also have "\<dots> = repeat_blocks blk
                 (stage_configs (setitem h a ''strides'' (VInt 1) ! a) n) (dict_add tcx cx) sh'"
      by (rule Suc.IH [OF len])
    also have "\<dots> = repeat_blocks blk (replicate n ((h ! a)(''strides'' \<mapsto> VInt 1)))
                 (dict_add tcx cx) sh'"
      using Suc.prems by (simp add: setitem_nth stage_configs_forced)
    also have "\<dots> = repeat_blocks blk (stage_configs (h ! a) (Suc n)) tcx sh"
      using Inr r by (simp add: stage_configs_def)
    finally show ?thesis .
  qed
qed

lemma residual_stage_loop_frame:
  "k \<le> a \<Longrightarrow> take k (fst (residual_stage_loop blk a n h tcx sh)) = take k h"
proof (induction n arbitrary: h tcx sh)
  case 0
  show ?case by simp
next
  case (Suc n)
  show ?case
  proof (cases "blk (h ! a) sh")
    case (Inl e)
    then show ?thesis by simp
  next
    case (Inr r)
    obtain cx sh' where r: "r = (cx, sh')" by (cases r)
    show ?thesis
      using Inr r Suc.IH [OF Suc.prems] Suc.prems by (simp add: take_setitem)
  qed
qed

lemma stage_loop_frame:
  "k \<le> a \<Longrightarrow> take k (fst (stage_loop a n h x)) = take k h"
proof (induction n arbitrary: h x)
  case 0
  show ?case by simp
next
  case (Suc n)
  show ?case
    using Suc.IH [OF Suc.prems] Suc.prems
    by (simp add: take_setitem split: sum.splits)
qed

lemma stage_frame:
  "k \<le> st_model_config env \<Longrightarrow> take k (fst (stage env h x)) = take k h"
  by (simp add: stage_def stage_loop_frame split: sum.splits)

lemma residual_stage_frame:
  "take (length h)
     (fst (case lookup (h ! a) ''depth'' of
        Inl e \<Rightarrow> (h, Inl e)
      | Inr depth \<Rightarrow>
          (case lookup (h ! a) ''strides'' of
             Inl e \<Rightarrow> (h, Inl e)
           | Inr strides \<Rightarrow>
               (let (h', a') = deepcopy h a
                in case py_range depth of
                     Inl e \<Rightarrow> (h', Inl e)
                   | Inr n \<Rightarrow> residual_stage_loop blk a' n h' Map.empty sh)))) = h"
  by (simp add: deepcopy_def residual_stage_loop_frame split: sum.splits)

lemma res_basic_stage_complexity_frame:
  "take (length h) (fst (res_basic_stage_complexity blk h a sh)) = h"
  unfolding res_basic_stage_complexity_def by (rule residual_stage_frame)

lemma res_bottleneck_stage_complexity_frame:
  "take (length h) (fst (res_bottleneck_stage_complexity blk h a sh)) = h"
  unfolding res_bottleneck_stage_complexity_def by (rule residual_stage_frame)

lemma res_bottleneck_stage_frame:
  "take (length h) (fst (res_bottleneck_stage h a)) = h"
  by (simp add: res_bottleneck_stage_def deepcopy_def split: sum.splits)

lemma res_bottleneck_stage_env:
  "res_bottleneck_stage h a = (h1, Inr env) \<Longrightarrow>
   st_model_config env = length h \<and> h1 = h @ [h ! a]"
  by (auto simp: res_bottleneck_stage_def deepcopy_def split: sum.splits)

lemma nth_of_take: "take (length h) h' = h \<Longrightarrow> a < length h \<Longrightarrow> h' ! a = h ! a"
  by (metis nth_take)

text \<open>
  Claim C4. A residual stage function leaves the configuration it is given as it was:
  after \<^verbatim>\<open>res_basic_stage_complexity\<close>, \<^verbatim>\<open>res_bottleneck_stage_complexity\<close>,
  the constructor \<^verbatim>\<open>res_bottleneck_stage\<close> and a call of the stage it returns, the
  object at the caller's reference has its old contents, whatever the outcome. The
  writes to \<^verbatim>\<open>strides\<close> go to the copy.
\<close>

theorem caller_config_unmodified:
  assumes a: "a < length h"
  shows "fst (res_basic_stage_complexity basic_blk h a sh) ! a = h ! a
       \<and> fst (res_bottleneck_stage_complexity bottleneck_blk h a sh) ! a = h ! a
       \<and> fst (res_bottleneck_stage h a) ! a = h ! a
       \<and> (\<forall>h1 env. res_bottleneck_stage h a = (h1, Inr env) \<longrightarrow>
            fst (stage env h1 x) ! a = h ! a)"
proof -
  have basic: "fst (res_basic_stage_complexity basic_blk h a sh) ! a = h ! a"
    using res_basic_stage_complexity_frame a by (rule nth_of_take)
  have bottleneck: "fst (res_bottleneck_stage_complexity bottleneck_blk h a sh) ! a = h ! a"
    using res_bottleneck_stage_complexity_frame a by (rule nth_of_take)
  have construct: "fst (res_bottleneck_stage h a) ! a = h ! a"
    using res_bottleneck_stage_frame a by (rule nth_of_take)
  have call: "fst (stage env h1 x) ! a = h ! a"
    if built: "res_bottleneck_stage h a = (h1, Inr env)" for h1 env
  proof -
    from res_bottleneck_stage_env [OF built]
    have env: "st_model_config env = length h" and h1: "h1 = h @ [h ! a]"
      by simp_all
    have "take (length h) (fst (stage env h1 x)) = take (length h) h1"
      by (rule stage_frame) (simp add: env)
    then have "take (length h) (fst (stage env h1 x)) = h"
      by (simp add: h1)
    then show ?thesis using a by (rule nth_of_take)
  qed
  from basic bottleneck construct call show ?thesis by blast
qed

theorem caller_config_unmodified_witness:
  "fst (res_basic_stage_complexity res_bottleneck_block_complexity [bottleneck_config] 0 [64, 64, 16]) ! 0
     = bottleneck_config
   \<and> fst (res_bottleneck_stage_complexity res_bottleneck_block_complexity [bottleneck_config] 0
            [64, 64, 16]) ! 0 = bottleneck_config
   \<and> fst (res_bottleneck_stage [bottleneck_config] 0) ! 0 = bottleneck_config
   \<and> fst (stage \<lparr>st_depth = VInt 3, st_model_config = 1\<rparr> [bottleneck_config, bottleneck_config]
            (Input [64, 64, 16])) ! 0 = bottleneck_config"
proof -
  have built: "res_bottleneck_stage [bottleneck_config] 0 =
     ([bottleneck_config, bottleneck_config], Inr \<lparr>st_depth = VInt 3, st_model_config = 1\<rparr>)"
    by (simp add: res_bottleneck_stage_def lookup_def bottleneck_config_def deepcopy_def)
  show ?thesis
    using caller_config_unmodified [of 0 "[bottleneck_config]" res_bottleneck_block_complexity
        "[64, 64, 16]" res_bottleneck_block_complexity "Input [64, 64, 16]"] built
    by simp
qed

text \<open>
  Claim C3. With a depth \<open>d \<ge> 1\<close>, \<^verbatim>\<open>res_basic_stage_complexity\<close> and
  \<^verbatim>\<open>res_bottleneck_stage_complexity\<close> evaluate the per-block function \<open>d\<close> times,
  the shape threading through and the costs accumulated with \<^verbatim>\<open>dict_add\<close>: the
  first time on the configuration as given, every later time on the configuration
  with \<^verbatim>\<open>strides\<close> forced to 1.
\<close>

theorem residual_stage_repeats_block:
  assumes a: "a < length h"
    and depth: "(h ! a) ''depth'' = Some (VInt d)"
    and d: "1 \<le> d"
    and strides: "(h ! a) ''strides'' = Some s"
  shows "snd (res_basic_stage_complexity basic_blk h a sh) =
           repeat_blocks basic_blk
             ((h ! a) # replicate (nat d - 1) ((h ! a)(''strides'' \<mapsto> VInt 1))) Map.empty sh
       \<and> snd (res_bottleneck_stage_complexity bottleneck_blk h a sh) =
           repeat_blocks bottleneck_blk
             ((h ! a) # replicate (nat d - 1) ((h ! a)(''strides'' \<mapsto> VInt 1))) Map.empty sh
       \<and> length ((h ! a) # replicate (nat d - 1) ((h ! a)(''strides'' \<mapsto> VInt 1))) = nat d"
proof -
  obtain m where m: "nat d = Suc m"
    using d by (cases "nat d") auto
  have configs: "stage_configs (h ! a) (nat d) =
      (h ! a) # replicate (nat d - 1) ((h ! a)(''strides'' \<mapsto> VInt 1))"
    by (simp add: stage_configs_def m)
  have copy: "(h @ [h ! a]) ! length h = h ! a"
    by simp
  have loop: "snd (residual_stage_loop blk (length h) (nat d) (h @ [h ! a]) Map.empty sh) =
      repeat_blocks blk ((h ! a) # replicate (nat d - 1) ((h ! a)(''strides'' \<mapsto> VInt 1)))
        Map.empty sh" for blk
    using residual_stage_loop_result [of "length h" "h @ [h ! a]" blk "nat d" Map.empty sh]
    by (simp add: configs)
  have basic: "snd (res_basic_stage_complexity basic_blk h a sh) =
      snd (residual_stage_loop basic_blk (length h) (nat d) (h @ [h ! a]) Map.empty sh)"
    by (simp add: res_basic_stage_complexity_def lookup_def depth strides deepcopy_def py_range_def)
  have bottleneck: "snd (res_bottleneck_stage_complexity bottleneck_blk h a sh) =
      snd (residual_stage_loop bottleneck_blk (length h) (nat d) (h @ [h ! a]) Map.empty sh)"
    by (simp add: res_bottleneck_stage_complexity_def lookup_def depth strides deepcopy_def
        py_range_def)
  have len: "length ((h ! a) # replicate (nat d - 1) ((h ! a)(''strides'' \<mapsto> VInt 1))) = nat d"
    by (simp add: m)
  from basic bottleneck loop len show ?thesis by simp
qed

lemma bottleneck_block_complexity_shapes:
  "map_sum id snd (res_bottleneck_block_complexity bottleneck_config [64, 64, 16]) = Inr [32, 32, 32]"
  "map_sum id snd (res_bottleneck_block_complexity (bottleneck_config(''strides'' \<mapsto> VInt 1))
      [32, 32, 32]) = Inr [32, 32, 32]"
  by (simp_all add: res_bottleneck_block_complexity_def bottleneck_config_def lookup_def
      isinstance_int_def bottleneck_size_half conv2d_complexity_def
      norm_complexity_def positive_int_def normalize_pair_def out_length_def py_eq_ones_def
      py_eq_int_def dim_eq_def last_dim_def Let_def)

lemma map_sum_snd_Inr: "map_sum id snd r = Inr sh \<Longrightarrow> \<exists>cx. r = Inr (cx, sh)"
  by (cases r) auto

theorem residual_stage_repeats_block_witness:
  "snd (res_basic_stage_complexity res_bottleneck_block_complexity [bottleneck_config] 0 [64, 64, 16]) =
     repeat_blocks res_bottleneck_block_complexity
       [bottleneck_config, bottleneck_config(''strides'' \<mapsto> VInt 1),
        bottleneck_config(''strides'' \<mapsto> VInt 1)] Map.empty [64, 64, 16]
   \<and> snd (res_bottleneck_stage_complexity res_bottleneck_block_complexity [bottleneck_config] 0
        [64, 64, 16]) =
     repeat_blocks res_bottleneck_block_complexity
       [bottleneck_config, bottleneck_config(''strides'' \<mapsto> VInt 1),
        bottleneck_config(''strides'' \<mapsto> VInt 1)] Map.empty [64, 64, 16]
   \<and> map_sum id snd (snd (res_bottleneck_stage_complexity res_bottleneck_block_complexity
        [bottleneck_config] 0 [64, 64, 16])) = Inr [32, 32, 32]"
proof -
  have depth: "([bottleneck_config] ! 0) ''depth'' = Some (VInt 3)"
    and strides: "([bottleneck_config] ! 0) ''strides'' = Some (VInt 2)"
    by (simp_all add: bottleneck_config_def)
  note stage = residual_stage_repeats_block [of 0 "[bottleneck_config]" 3 "VInt 2"
      res_bottleneck_block_complexity "[64, 64, 16]" res_bottleneck_block_complexity,
      OF _ depth _ strides]
  have eqs: "snd (res_basic_stage_complexity res_bottleneck_block_complexity [bottleneck_config] 0
        [64, 64, 16]) =
     repeat_blocks res_bottleneck_block_complexity
       [bottleneck_config, bottleneck_config(''strides'' \<mapsto> VInt 1),
        bottleneck_config(''strides'' \<mapsto> VInt 1)] Map.empty [64, 64, 16]
   \<and> snd (res_bottleneck_stage_complexity res_bottleneck_block_complexity [bottleneck_config] 0
        [64, 64, 16]) =
     repeat_blocks res_bottleneck_block_complexity
       [bottleneck_config, bottleneck_config(''strides'' \<mapsto> VInt 1),
        bottleneck_config(''strides'' \<mapsto> VInt 1)] Map.empty [64, 64, 16]"
    using stage by (simp add: numeral_2_eq_2)
  obtain cx1 where b1: "res_bottleneck_block_complexity bottleneck_config [64, 64, 16] =
      Inr (cx1, [32, 32, 32])"
    using map_sum_snd_Inr [OF bottleneck_block_complexity_shapes(1)] by blast
  obtain cx2 where b2: "res_bottleneck_block_complexity
      (bottleneck_config(''strides'' \<mapsto> VInt 1)) [32, 32, 32] = Inr (cx2, [32, 32, 32])"
    using map_sum_snd_Inr [OF bottleneck_block_complexity_shapes(2)] by blast
  have "map_sum id snd (repeat_blocks res_bottleneck_block_complexity
       [bottleneck_config, bottleneck_config(''strides'' \<mapsto> VInt 1),
        bottleneck_config(''strides'' \<mapsto> VInt 1)] Map.empty [64, 64, 16]) = Inr [32, 32, 32]"
    by (simp add: b1 b2)
  with eqs show ?thesis by simp
qed

section \<open>The simple convolution block\<close>

lemma pool_length: "0 < q \<Longrightarrow> (n - q) div q + 1 = n div (q::int)"
  using div_add_self2 [of q "n - q"] by simp

lemma keras_call_shape:
  "shape_of x = Inr sh \<Longrightarrow> layer_shape l sh = Inr sh' \<Longrightarrow>
   keras_call l x = Inr (Call l x) \<and> shape_of (Call l x) = Inr sh'"
  by (simp add: keras_call_def)

lemma keras_call_Inr: "keras_call l x = Inr y \<Longrightarrow> y = Call l x"
  by (auto simp: keras_call_def bindE_def split: sum.splits)

lemma tensor_add_Inr: "tensor_add a b = Inr y \<Longrightarrow> y = Plus a b"
  by (auto simp: tensor_add_def bindE_def split: sum.splits)

lemma conv_block_step_shape:
  assumes x: "shape_of x = Inr [h, w, c]"
    and f: "py_index (cb_filters env) i = Inr (VInt f)" "0 < f"
    and q: "py_index (cb_pool_size env) i = Inr (VInt q)" "0 < q" "q \<le> h" "q \<le> w"
    and rate: "cb_dropout_rate env = VFloat 0"
  shows "\<exists>y. conv_block_step env i x = Inr y \<and> shape_of y = Inr [h div q, w div q, f]"
proof -
  have h: "0 < h" and w: "0 < w"
    using q by simp_all
  have hq: "0 < h div q" and wq: "0 < w div q"
    using q by (simp_all add: pos_imp_zdiv_pos_iff)
  show ?thesis
    using x f q h w hq wq
    by (simp add: conv_block_step_def Conv2D_def positive_int_def normalize_pair_def
        MaxPooling2D_def keras_call_def window_shape_def out_length_def pool_length
        Activation_relu rate Dropout_zero)
qed

lemma l1_l2_default: "l1_l2 default_regularizer = Inr (VFloat 0, VFloat 0)"
  by (simp add: l1_l2_def default_regularizer_def penalty_def)

lemma simple_conv_block_example:
  "simple_conv_block simple_conv_config =
     Inr \<lparr>cb_filters = VList [VInt 16, VInt 32], cb_pool_size = VList [VInt 2, VInt 2],
          cb_dropout_rate = VFloat 0, cb_kernel_regularizer = (VFloat 0, VFloat 0)\<rparr>"
  by (simp add: simple_conv_block_def simple_conv_config_def lookup_def get_default_def
      l1_l2_default match_filters_def py_len_def)

text \<open>
  On \<^verbatim>\<open>filters=[16,32], pool_size=[2,2]\<close> and the input shape (64, 64, 3) the
  function \<^verbatim>\<open>simple_conv_stage_complexity\<close> returns no shape, whatever the
  primitive complexity functions are: it looks up the key \<^verbatim>\<open>depth\<close>, which
  the configuration lacks, before it calls any of them.
\<close>

theorem simple_conv_stage_complexity_example_fails:
  "\<forall>cv nm pl. simple_conv_stage_complexity cv nm pl simple_conv_config [64, 64, 3] =
     Inl (KeyError (VStr ''depth''))"
  by (simp add: simple_conv_stage_complexity_def simple_conv_config_def lookup_def)

text \<open>
  Claim C6, amended. For \<^verbatim>\<open>filters=[16,32], pool_size=[2,2]\<close> the pipeline of
  \<^verbatim>\<open>simple_conv_block\<close> gives an input of height and width at least 4 an output
  with 32 channels and each spatial dimension divided by 4, by two poolings of size 2;
  an input of shape (64, 64, 3) gives (16, 16, 32). On that configuration
  \<^verbatim>\<open>simple_conv_stage_complexity\<close>, which reads a scalar \<^verbatim>\<open>filters\<close>, a
  \<^verbatim>\<open>depth\<close> and a single \<^verbatim>\<open>pool_size\<close>, fails on the key \<^verbatim>\<open>depth\<close>
  for every input shape.
\<close>

theorem simple_conv_block_example_shape:
  assumes x: "shape_of x = Inr [h, w, c]" and h: "4 \<le> h" and w: "4 \<le> w"
  shows "(\<exists>env y. simple_conv_block simple_conv_config = Inr env
           \<and> conv_block env x = Inr y
           \<and> shape_of y = Inr [h div 4, w div 4, 32])
         \<and> simple_conv_stage_complexity cv nm pl simple_conv_config sh =
             Inl (KeyError (VStr ''depth''))"
proof -
  define env where "env = \<lparr>cb_filters = VList [VInt 16, VInt 32],
      cb_pool_size = VList [VInt 2, VInt 2], cb_dropout_rate = VFloat 0,
      cb_kernel_regularizer = (VFloat 0, VFloat 0)\<rparr>"
  have built: "simple_conv_block simple_conv_config = Inr env"
    by (simp add: simple_conv_block_example env_def)
  have "\<exists>y. conv_block_step env 0 x = Inr y \<and> shape_of y = Inr [h div 2, w div 2, 16]"
    using x h w by (intro conv_block_step_shape) (simp_all add: env_def py_index_def)
  then obtain y1 where y1: "conv_block_step env 0 x = Inr y1"
    and s1: "shape_of y1 = Inr [h div 2, w div 2, 16]"
    by blast
  have "\<exists>y. conv_block_step env 1 y1 = Inr y \<and>
          shape_of y = Inr [h div 2 div 2, w div 2 div 2, 32]"
    using s1 h w by (intro conv_block_step_shape) (simp_all add: env_def py_index_def)
  then obtain y2 where y2: "conv_block_step env 1 y1 = Inr y2"
    and s2: "shape_of y2 = Inr [h div 2 div 2, w div 2 div 2, 32]"
    by blast
  have quarter: "h div 2 div 2 = h div 4" "w div 2 div 2 = w div 4"
    by (simp_all add: zdiv_zmult2_eq)
  have indices: "[0..<2] = [0, 1]"
    by (simp add: upt_rec)
  have "conv_block env x = Inr y2"
    using y1 y2 by (simp add: conv_block_def env_def py_len_def indices)
  moreover have "simple_conv_stage_complexity cv nm pl simple_conv_config sh =
      Inl (KeyError (VStr ''depth''))"
    by (simp add: simple_conv_stage_complexity_def simple_conv_config_def lookup_def)
  ultimately show ?thesis
    using built s2 quarter by simp
qed

theorem simple_conv_block_example_shape_witness:
  "bindE (simple_conv_block simple_conv_config)
     (\<lambda>env. bindE (conv_block env (Input [64, 64, 3])) shape_of) = Inr [16, 16, 32]"
proof -
  have "shape_of (Input [64, 64, 3]) = Inr [64, 64, 3]" by simp
  from simple_conv_block_example_shape [OF this, THEN conjunct1]
  obtain env y where "simple_conv_block simple_conv_config = Inr env"
    and "conv_block env (Input [64, 64, 3]) = Inr y"
    and "shape_of y = Inr [64 div 4, 64 div 4, 32]"
    by auto
  then show ?thesis by simp
qed

text \<open>
  With an empty list of filters the constructor still takes the length of
  \<^verbatim>\<open>pool_size\<close> and builds the regulariser: a \<^verbatim>\<open>pool_size\<close> of 5 raises
  \<^verbatim>\<open>TypeError\<close>, and a penalty that is not a number raises \<^verbatim>\<open>ValueError\<close>.
\<close>

theorem empty_filters_unsized_pool_size:
  "simple_conv_block [''filters'' \<mapsto> VList [], ''pool_size'' \<mapsto> VInt 5] = Inl TypeError
   \<and> simple_conv_block [''filters'' \<mapsto> VList [], ''pool_size'' \<mapsto> VList [VInt 2, VInt 2],
        ''kernel_regularizer'' \<mapsto> VDict [(''l1'', VStr ''x'')]] =
      Inl (ValueError ''not a valid regularization penalty number'')"
proof -
  have unsized: "simple_conv_block [''filters'' \<mapsto> VList [], ''pool_size'' \<mapsto> VInt 5] =
      Inl TypeError"
    by (simp add: simple_conv_block_def lookup_def get_default_def l1_l2_default
        match_filters_def py_len_def)
  have "l1_l2 (VDict [(''l1'', VStr ''x'')]) =
      Inl (ValueError ''not a valid regularization penalty number'')"
    by (simp add: l1_l2_def penalty_def)
  then have "simple_conv_block [''filters'' \<mapsto> VList [],
        ''pool_size'' \<mapsto> VList [VInt 2, VInt 2],
        ''kernel_regularizer'' \<mapsto> VDict [(''l1'', VStr ''x'')]] =
      Inl (ValueError ''not a valid regularization penalty number'')"
    by (simp add: simple_conv_block_def lookup_def get_default_def)
  with unsized show ?thesis by simp
qed

text \<open>
  Claim C9, amended. When \<^verbatim>\<open>filters\<close> is an empty list, \<^verbatim>\<open>pool_size\<close> is a
  value that has a length (of any length and contents) and \<^verbatim>\<open>kernel_regularizer\<close>
  is absent or accepted by \<^verbatim>\<open>l1_l2\<close>, \<^verbatim>\<open>simple_conv_block\<close> raises no
  failure: \<^verbatim>\<open>filters * len(pool_size)\<close> is the empty list, the lengths are not
  compared, and the pipeline runs no stage and returns its input.
\<close>

theorem empty_filters_identity:
  assumes filters: "cfg ''filters'' = Some (VList [])"
    and pool_size: "cfg ''pool_size'' = Some ps"
    and sized: "py_len ps = Inr m"
    and reg: "l1_l2 (get_default cfg ''kernel_regularizer'' default_regularizer) = Inr r"
  shows "\<exists>env. simple_conv_block cfg = Inr env
           \<and> cb_filters env = VList []
           \<and> (\<forall>x. conv_block env x = Inr x)"
  using assms
  by (simp add: simple_conv_block_def lookup_def match_filters_def py_len_def py_mul_int_def
      conv_block_def)

theorem empty_filters_identity_witness:
  "bindE (simple_conv_block [''filters'' \<mapsto> VList [], ''pool_size'' \<mapsto> VList [VInt 2, VInt 2]])
     (\<lambda>env. conv_block env (Input [64, 64, 3])) = Inr (Input [64, 64, 3])"
proof -
  have "\<exists>env. simple_conv_block [''filters'' \<mapsto> VList [], ''pool_size'' \<mapsto> VList [VInt 2, VInt 2]]
            = Inr env \<and> cb_filters env = VList [] \<and> (\<forall>x. conv_block env x = Inr x)"
    by (rule empty_filters_identity [where ps = "VList [VInt 2, VInt 2]" and m = 2])
       (simp_all add: py_len_def get_default_def l1_l2_default)
  then show ?thesis by auto
qed

lemma match_filters_mismatch:
  "py_len fs = Inr n \<Longrightarrow> py_len ps = Inr m \<Longrightarrow> n \<noteq> 0 \<Longrightarrow> n \<noteq> m \<Longrightarrow>
   match_filters fs ps = Inl length_mismatch"
  by (simp add: match_filters_def length_mismatch_def)

lemma bindE_not_Inl:
  "m \<noteq> Inl e \<Longrightarrow> (\<And>x. f x \<noteq> Inl e) \<Longrightarrow> bindE m f \<noteq> Inl e"
  by (cases m) simp_all

lemma lookup_not_mismatch: "lookup cfg key \<noteq> Inl length_mismatch"
  by (simp add: lookup_def length_mismatch_def split: option.splits)

lemma py_range_not_mismatch: "py_range v \<noteq> Inl length_mismatch"
  by (cases v) (simp_all add: py_range_def length_mismatch_def)

lemma positive_int_not_mismatch: "positive_int v \<noteq> Inl length_mismatch"
  by (cases v) (simp_all add: positive_int_def length_mismatch_def)

lemma normalize_pair_cases:
  "normalize_pair v = Inl (ValueError ''normalize_tuple'') \<or> (\<exists>p. normalize_pair v = Inr p)"
  by (simp add: normalize_pair_def split: pyval.splits list.splits)

lemma normalize_pair_not_mismatch: "normalize_pair v \<noteq> Inl length_mismatch"
  using normalize_pair_cases [of v] by (auto simp: length_mismatch_def)

lemma conv_norm_loop_no_mismatch:
  assumes cv: "\<And>sh f k cx. cv sh f k cx \<noteq> Inl length_mismatch"
    and nm: "\<And>sh cx. nm sh cx \<noteq> Inl length_mismatch"
  shows "conv_norm_loop cv nm f n cx sh \<noteq> Inl length_mismatch"
proof (induction n arbitrary: cx sh)
  case 0
  show ?case by simp
next
  case (Suc n)
  have step: "bindE (cv sh f (VInt 3) cx) (\<lambda>(cx, shape). nm shape cx) \<noteq> Inl length_mismatch"
    using cv nm by (intro bindE_not_Inl) (simp_all add: split_def)
  show ?case
  proof (cases "bindE (cv sh f (VInt 3) cx) (\<lambda>(cx, shape). nm shape cx)")
    case (Inl e)
    with step show ?thesis by auto
  next
    case (Inr r)
    obtain cx' sh' where r: "r = (cx', sh')" by (cases r)
    show ?thesis
      using Inr r Suc.IH [of cx' sh'] by simp
  qed
qed

lemma simple_conv_stage_complexity_no_mismatch:
  assumes cv: "\<And>sh f k cx. cv sh f k cx \<noteq> Inl length_mismatch"
    and nm: "\<And>sh cx. nm sh cx \<noteq> Inl length_mismatch"
    and pl: "\<And>sh p s cx. pl sh p s cx \<noteq> Inl length_mismatch"
  shows "simple_conv_stage_complexity cv nm pl cfg sh \<noteq> Inl length_mismatch"
  unfolding simple_conv_stage_complexity_def Let_def
  by (intro bindE_not_Inl lookup_not_mismatch py_range_not_mismatch
      conv_norm_loop_no_mismatch cv nm) (simp add: split_def pl)

lemma conv2d_complexity_not_mismatch:
  "conv2d_complexity sh f k s g cx \<noteq> Inl length_mismatch"
proof (cases "\<exists>h w c. sh = [h, w, c]")
  case True
  then obtain h w c where sh: "sh = [h, w, c]" by blast
  show ?thesis
    unfolding conv2d_complexity_def sh
    by (simp, intro bindE_not_Inl positive_int_not_mismatch normalize_pair_not_mismatch)
       (simp add: Let_def)
next
  case False
  then have "conv2d_complexity sh f k s g cx = Inl (ValueError ''expected a feature map'')"
    by (simp add: conv2d_complexity_def split: list.splits)
  then show ?thesis by (simp add: length_mismatch_def)
qed

lemma pool2d_complexity_not_mismatch:
  "pool2d_complexity sh p s cx \<noteq> Inl length_mismatch"
proof (cases "\<exists>h w c. sh = [h, w, c]")
  case True
  then obtain h w c where sh: "sh = [h, w, c]" by blast
  have strides: "(if s = VNone then Inr q else normalize_pair s) \<noteq> Inl length_mismatch" for q
    by (simp add: normalize_pair_not_mismatch)
  show ?thesis
    unfolding pool2d_complexity_def sh
    by (simp, intro bindE_not_Inl normalize_pair_not_mismatch strides) (simp add: Let_def)
next
  case False
  then have "pool2d_complexity sh p s cx = Inl (ValueError ''expected a feature map'')"
    by (simp add: pool2d_complexity_def split: list.splits)
  then show ?thesis by (simp add: length_mismatch_def)
qed

lemma norm_complexity_not_mismatch: "norm_complexity sh cx \<noteq> Inl length_mismatch"
  by (simp add: norm_complexity_def length_mismatch_def)

lemma spec_primitives_no_mismatch:
  "conv2d_complexity_default sh f k cx \<noteq> Inl length_mismatch"
  "norm_complexity sh cx \<noteq> Inl length_mismatch"
  "pool2d_complexity sh p s cx \<noteq> Inl length_mismatch"
  unfolding conv2d_complexity_default_def
  by (rule conv2d_complexity_not_mismatch norm_complexity_not_mismatch
      pool2d_complexity_not_mismatch)+

text \<open>
  Claim C5, amended. With a non-empty \<^verbatim>\<open>filters\<close> whose length differs from the
  length of \<^verbatim>\<open>pool_size\<close>, both values having a length, and with
  \<^verbatim>\<open>kernel_regularizer\<close> absent or accepted by \<^verbatim>\<open>l1_l2\<close> (the regulariser
  is built before the lengths are compared), the constructor
  \<^verbatim>\<open>simple_conv_block\<close> raises the failure "len of filters and pool_size do not
  match". The function \<^verbatim>\<open>simple_conv_stage_complexity\<close> compares no lengths:
  it raises that failure only if one of the primitive complexity functions it calls
  does.
\<close>

theorem length_mismatch_raised:
  "(cfg ''filters'' = Some fs \<longrightarrow> cfg ''pool_size'' = Some ps \<longrightarrow>
      py_len fs = Inr n \<longrightarrow> py_len ps = Inr m \<longrightarrow> n \<noteq> 0 \<longrightarrow> n \<noteq> m \<longrightarrow>
      l1_l2 (get_default cfg ''kernel_regularizer'' default_regularizer) = Inr r \<longrightarrow>
      simple_conv_block cfg = Inl length_mismatch)
   \<and> ((\<forall>sh f k cx. cv sh f k cx \<noteq> Inl length_mismatch) \<longrightarrow>
       (\<forall>sh cx. nm sh cx \<noteq> Inl length_mismatch) \<longrightarrow>
       (\<forall>sh p s cx. pl sh p s cx \<noteq> Inl length_mismatch) \<longrightarrow>
       simple_conv_stage_complexity cv nm pl cfg' sh' \<noteq> Inl length_mismatch)"
proof -
  have block: "simple_conv_block cfg = Inl length_mismatch"
    if "cfg ''filters'' = Some fs" "cfg ''pool_size'' = Some ps" "py_len fs = Inr n"
      "py_len ps = Inr m" "n \<noteq> 0" "n \<noteq> m"
      "l1_l2 (get_default cfg ''kernel_regularizer'' default_regularizer) = Inr r"
    using that by (simp add: simple_conv_block_def lookup_def match_filters_mismatch)
  have stage: "simple_conv_stage_complexity cv nm pl cfg' sh' \<noteq> Inl length_mismatch"
    if "\<forall>sh f k cx. cv sh f k cx \<noteq> Inl length_mismatch"
      "\<forall>sh cx. nm sh cx \<noteq> Inl length_mismatch"
      "\<forall>sh p s cx. pl sh p s cx \<noteq> Inl length_mismatch"
    using that by (intro simple_conv_stage_complexity_no_mismatch) blast+
  from block stage show ?thesis by blast
qed

theorem length_mismatch_raised_witness:
  "simple_conv_block mismatch_config = Inl length_mismatch
   \<and> simple_conv_stage_complexity conv2d_complexity_default norm_complexity pool2d_complexity
        [''filters'' \<mapsto> VInt 32, ''depth'' \<mapsto> VInt 2, ''pool_size'' \<mapsto> VInt 2] [64, 64, 3]
      \<noteq> Inl length_mismatch"
  using length_mismatch_raised [of mismatch_config "VList [VInt 16, VInt 32, VInt 64]"
      "VList [VInt 2, VInt 2]" 3 2 "(VFloat 0, VFloat 0)"
      conv2d_complexity_default norm_complexity pool2d_complexity
      "[''filters'' \<mapsto> VInt 32, ''depth'' \<mapsto> VInt 2, ''pool_size'' \<mapsto> VInt 2]" "[64, 64, 3]"]
    spec_primitives_no_mismatch
  by (simp add: mismatch_config_def py_len_def get_default_def l1_l2_default)

text \<open>
  On \<^verbatim>\<open>filters=[16,32,64], pool_size=[2,2]\<close> the constructor raises the length
  mismatch, while the complexity function fails on the key \<^verbatim>\<open>depth\<close>, which it
  looks up and the configuration lacks, and with a depth of 0 returns a shape.
\<close>

theorem complexity_has_no_length_check:
  "simple_conv_block mismatch_config = Inl length_mismatch
   \<and> simple_conv_stage_complexity conv2d_complexity_default norm_complexity pool2d_complexity
        mismatch_config [64, 64, 3] = Inl (KeyError (VStr ''depth''))
   \<and> simple_conv_stage_complexity conv2d_complexity_default norm_complexity pool2d_complexity
        mismatch_config [64, 64, 3] \<noteq> Inl length_mismatch
   \<and> map_sum id snd
        (simple_conv_stage_complexity conv2d_complexity_default norm_complexity pool2d_complexity
           (mismatch_config(''depth'' \<mapsto> VInt 0)) [64, 64, 3]) = Inr [32, 32, 3]"
  by (simp add: simple_conv_block_def simple_conv_stage_complexity_def mismatch_config_def
      lookup_def get_default_def l1_l2_default match_filters_def py_len_def length_mismatch_def
      py_range_def pool2d_complexity_def normalize_pair_def out_length_def)

section \<open>The residual bottleneck block\<close>

lemma bindE_InrE:
  assumes "bindE m f = Inr y"
  obtains x where "m = Inr x" and "f x = Inr y"
  using assms by (cases m) simp_all

lemma normalize_pair_ones:
  "normalize_pair v = Inr s \<Longrightarrow> py_eq_ones v = (v = VTuple [VInt 1, VInt 1])"
  by (auto simp: normalize_pair_def py_eq_ones_def py_eq_int_def
      split: pyval.splits list.splits if_splits)

lemma Conv2D_Inr:
  "Conv2D f k s pad g = Inr l \<Longrightarrow>
   \<exists>f' k' s' g'. positive_int f = Inr f' \<and> normalize_pair k = Inr k' \<and> normalize_pair s = Inr s'
     \<and> positive_int g = Inr g' \<and> l = LConv2D f' k' s' pad g'"
  by (auto simp: Conv2D_def elim!: bindE_InrE split: if_splits)

lemma layer_shape_conv_Inr:
  "layer_shape (LConv2D f k s pad g) sh = Inr sh' \<Longrightarrow> \<exists>h w c. sh = [h, w, c]"
  by (cases "(LConv2D f k s pad g, sh)" rule: layer_shape.cases) simp_all

lemma keras_call_conv_Inr:
  "keras_call (LConv2D f k s pad g) x = Inr y \<Longrightarrow> \<exists>h w c. shape_of x = Inr [h, w, c]"
  by (auto simp: keras_call_def elim!: bindE_InrE split: sum.splits dest: layer_shape_conv_Inr)

lemma res_bottleneck_block_env:
  assumes "res_bottleneck_block cfg = Inr env"
    and "cfg ''filters'' = Some filters" and "cfg ''strides'' = Some strides"
  shows "bn_filters env = filters \<and> bn_strides env = stride_pair strides"
  using assms
  by (auto simp: res_bottleneck_block_def lookup_def Let_def isinstance_int_def stride_pair_def
      elim!: bindE_InrE split: option.splits pyval.splits)


lemma Activation_Inr: "Activation a = Inr l \<Longrightarrow> \<exists>a'. l = LActivation a'"
  by (auto simp: Activation_def elim!: bindE_InrE)

lemma bottleneck_block_Inr:
  assumes run: "bottleneck_block env x = Inr y"
  shows "\<exists>out act project f s h w c.
           shape_of x = Inr [h, w, c]
         \<and> positive_int (bn_filters env) = Inr f
         \<and> normalize_pair (bn_strides env) = Inr s
         \<and> needs_projection env x = Inr project
         \<and> y = Call (LActivation act)
                 (Plus out (if project then Call (LConv2D f (1, 1) s Valid 1) x else x))"
proof -
  from run obtain conv1 out1 conv2 out2 project inputs' act3 added where
    conv1: "Conv2D (bn_filters env) (VInt 1) (VTuple [VInt 1, VInt 1]) Valid (VInt 1) = Inr conv1"
    and out1: "keras_call conv1 x = Inr out1"
    and conv2: "Conv2D (VInt (bn_bottleneck_size env)) (VInt 3) (bn_strides env) Same
                  (bn_groups env) = Inr conv2"
    and project: "needs_projection env x = Inr project"
    and inputs': "(if project then
              bindE (Conv2D (bn_filters env) (VInt 1) (bn_strides env) Valid (VInt 1))
                (\<lambda>shortcut. keras_call shortcut x)
            else Inr x) = Inr inputs'"
    and act3: "Activation (bn_activation env) = Inr act3"
    and added: "tensor_add out2 inputs' = Inr added"
    and y: "keras_call act3 added = Inr y"
    unfolding bottleneck_block_def by (elim bindE_InrE) blast
  from Conv2D_Inr [OF conv1] obtain f where f: "positive_int (bn_filters env) = Inr f"
    and c1: "conv1 = LConv2D f (1, 1) (1, 1) Valid 1"
    by (auto simp: normalize_pair_def positive_int_def)
  from out1 c1 obtain h w c where sh: "shape_of x = Inr [h, w, c]"
    using keras_call_conv_Inr by blast
  from Conv2D_Inr [OF conv2] obtain s where s: "normalize_pair (bn_strides env) = Inr s"
    by blast
  from Activation_Inr [OF act3] obtain act where act: "act3 = LActivation act"
    by blast
  have inputs: "inputs' = (if project then Call (LConv2D f (1, 1) s Valid 1) x else x)"
  proof (cases project)
    case True
    with inputs' obtain shortcut where
      "Conv2D (bn_filters env) (VInt 1) (bn_strides env) Valid (VInt 1) = Inr shortcut"
      and call: "keras_call shortcut x = Inr inputs'"
      by (auto elim!: bindE_InrE)
    then have "shortcut = LConv2D f (1, 1) s Valid 1"
      using f s by (auto simp: Conv2D_def normalize_pair_def positive_int_def)
    with call True show ?thesis by (auto dest: keras_call_Inr)
  next
    case False
    with inputs' show ?thesis by simp
  qed
  have "y = Call (LActivation act) (Plus out2 inputs')"
    using added y act by (auto dest: keras_call_Inr tensor_add_Inr)
  with sh f s project inputs show ?thesis by blast
qed

lemma tensor_not_own_call: "Call l x \<noteq> x"
  by (induction x arbitrary: l) auto

lemma res_bottleneck_block_examples:
  "res_bottleneck_block third_config =
     Inr \<lparr>bn_filters = VInt 3, bn_strides = VTuple [VInt 1, VInt 1], bn_groups = VInt 1,
          bn_activation = VStr ''relu'', bn_bottleneck_size = 1\<rparr>"
  "res_bottleneck_block bottleneck_config =
     Inr \<lparr>bn_filters = VInt 32, bn_strides = VTuple [VInt 2, VInt 2], bn_groups = VInt 1,
          bn_activation = VStr ''relu'', bn_bottleneck_size = 16\<rparr>"
  by (simp_all add: res_bottleneck_block_def third_config_def bottleneck_config_def
      lookup_def get_default_def isinstance_int_def bottleneck_size_half bottleneck_size_third)

lemma bottleneck_block_examples:
  "bindE (bottleneck_block \<lparr>bn_filters = VInt 3, bn_strides = VTuple [VInt 1, VInt 1],
       bn_groups = VInt 1, bn_activation = VStr ''relu'', bn_bottleneck_size = 1\<rparr>
       (Input [8, 8, 3])) (\<lambda>y. Inr (shortcut_input y)) = Inr (Some (Input [8, 8, 3]))"
  "bindE (bottleneck_block \<lparr>bn_filters = VInt 32, bn_strides = VTuple [VInt 2, VInt 2],
       bn_groups = VInt 1, bn_activation = VStr ''relu'', bn_bottleneck_size = 16\<rparr>
       (Input [64, 64, 32])) (\<lambda>y. Inr (shortcut_input y)) =
     Inr (Some (Call (LConv2D 32 (1, 1) (2, 2) Valid 1) (Input [64, 64, 32])))"
  by (simp_all add: bottleneck_block_def Conv2D_def positive_int_def normalize_pair_def
      keras_call_def tensor_add_def window_shape_def out_length_def needs_projection_def
      py_eq_ones_def py_eq_int_def dim_eq_def last_dim_def Activation_relu)

text \<open>
  Claim C2. In the residual bottleneck block the shortcut projection is applied if and
  only if the stride, a scalar \<open>s\<close> normalised to \<open>(s, s)\<close>, differs from
  \<open>(1, 1)\<close> or the number of input channels differs from \<^verbatim>\<open>filters\<close>.
  The constructor stores \<^verbatim>\<open>filters\<close> and the normalised stride; and whenever the
  block runs, with whatever bottleneck size, the tensor added to the main path is the
  input itself exactly when the stride is \<open>(1, 1)\<close> and the channels equal the
  filters, and is otherwise a 1\<times>1 convolution with \<^verbatim>\<open>filters\<close> filters called
  on the input.
\<close>

theorem shortcut_projection_condition:
  "(res_bottleneck_block cfg = Inr env' \<longrightarrow> cfg ''filters'' = Some filters \<longrightarrow>
      cfg ''strides'' = Some strides' \<longrightarrow>
      bn_filters env' = filters \<and> bn_strides env' = stride_pair strides')
   \<and> (bn_filters env = VInt f \<longrightarrow> bn_strides env = stride_pair strides \<longrightarrow>
      bottleneck_block env x = Inr y \<longrightarrow> shape_of x = Inr sh \<longrightarrow>
      (shortcut_input y = Some x) =
         (stride_pair strides = VTuple [VInt 1, VInt 1] \<and> last sh = f)
      \<and> (shortcut_input y = Some x
         \<or> (\<exists>s. shortcut_input y = Some (Call (LConv2D f (1, 1) s Valid 1) x))))"
proof -
  have stored: "bn_filters env' = filters \<and> bn_strides env' = stride_pair strides'"
    if "res_bottleneck_block cfg = Inr env'" "cfg ''filters'' = Some filters"
      "cfg ''strides'' = Some strides'"
    using that by (rule res_bottleneck_block_env)
  have decided: "(shortcut_input y = Some x) =
         (stride_pair strides = VTuple [VInt 1, VInt 1] \<and> last sh = f)
      \<and> (shortcut_input y = Some x
         \<or> (\<exists>s. shortcut_input y = Some (Call (LConv2D f (1, 1) s Valid 1) x)))"
    if env: "bn_filters env = VInt f" "bn_strides env = stride_pair strides"
      and run: "bottleneck_block env x = Inr y" and x: "shape_of x = Inr sh"
  proof -
    from bottleneck_block_Inr [OF run] obtain out act project f' s h w c where
      sh: "shape_of x = Inr [h, w, c]"
      and f': "positive_int (bn_filters env) = Inr f'"
      and s: "normalize_pair (bn_strides env) = Inr s"
      and project: "needs_projection env x = Inr project"
      and y: "y = Call (LActivation act)
                   (Plus out (if project then Call (LConv2D f' (1, 1) s Valid 1) x else x))"
      by blast
    have ff: "f' = f"
      using f' env by (simp add: positive_int_def split: if_splits)
    have shape: "sh = [h, w, c]"
      using x sh by simp
    have ones: "py_eq_ones (stride_pair strides) = (stride_pair strides = VTuple [VInt 1, VInt 1])"
      using normalize_pair_ones s env by simp
    have cond: "project = (stride_pair strides \<noteq> VTuple [VInt 1, VInt 1] \<or> last sh \<noteq> f)"
      using project env sh shape ones
      by (auto simp: needs_projection_def dim_eq_def last_dim_def py_eq_int_def split: if_splits)
    have chosen: "shortcut_input y =
        Some (if project then Call (LConv2D f (1, 1) s Valid 1) x else x)"
      using y ff by simp
    show ?thesis
      using chosen cond tensor_not_own_call [of "LConv2D f (1, 1) s Valid 1" x]
      by (cases project) auto
  qed
  from stored decided show ?thesis by blast
qed

theorem shortcut_projection_condition_witness:
  "(\<exists>env y. res_bottleneck_block third_config = Inr env
        \<and> bottleneck_block env (Input [8, 8, 3]) = Inr y
        \<and> shortcut_input y = Some (Input [8, 8, 3]))
   \<and> (\<exists>env y. res_bottleneck_block bottleneck_config = Inr env
        \<and> bottleneck_block env (Input [64, 64, 32]) = Inr y
        \<and> shortcut_input y \<noteq> Some (Input [64, 64, 32]))"
proof -
  let ?one = "\<lparr>bn_filters = VInt 3, bn_strides = VTuple [VInt 1, VInt 1],
      bn_groups = VInt 1, bn_activation = VStr ''relu'', bn_bottleneck_size = 1\<rparr>"
  let ?two = "\<lparr>bn_filters = VInt 32, bn_strides = VTuple [VInt 2, VInt 2],
      bn_groups = VInt 1, bn_activation = VStr ''relu'', bn_bottleneck_size = 16\<rparr>"
  obtain y1 where run1: "bottleneck_block ?one (Input [8, 8, 3]) = Inr y1"
    using bottleneck_block_examples(1)
    by (cases "bottleneck_block ?one (Input [8, 8, 3])") simp_all
  obtain y2 where run2: "bottleneck_block ?two (Input [64, 64, 32]) = Inr y2"
    using bottleneck_block_examples(2)
    by (cases "bottleneck_block ?two (Input [64, 64, 32])") simp_all
  have "shortcut_input y1 = Some (Input [8, 8, 3])"
    using shortcut_projection_condition [of third_config ?one "VInt 3" "VInt 1" ?one 3 "VInt 1"
        "Input [8, 8, 3]" y1 "[8, 8, 3]"] run1
    by (simp add: stride_pair_def)
  moreover have "shortcut_input y2 \<noteq> Some (Input [64, 64, 32])"
    using shortcut_projection_condition [of bottleneck_config ?two "VInt 32" "VInt 2" ?two 32
        "VInt 2" "Input [64, 64, 32]" y2 "[64, 64, 32]"] run2
    by (simp add: stride_pair_def)
  ultimately show ?thesis
    using run1 run2 res_bottleneck_block_examples by blast
qed

section \<open>The transformer encoder layer\<close>

lemma broadcast_same: "broadcast sh sh = Inr sh"
  by (induction sh) simp_all

lemma layer_shape_dense: "sh \<noteq> [] \<Longrightarrow> layer_shape (LDense u a) sh = Inr (butlast sh @ [u])"
  by (cases sh) simp_all

lemma transformer_encoder_layer_env:
  assumes "cfg ''d_model'' = Some (VInt d)" and "cfg ''n_head'' = Some n_head"
  shows "transformer_encoder_layer cfg =
     Inr \<lparr>te_d_model = VInt d, te_n_head = n_head,
          te_activation = get_default cfg ''activation'' (VStr ''relu''),
          te_dim_feedforward = get_default cfg ''dim_feedforward'' (VInt (d * 4)),
          te_dropout_rate = get_default cfg ''dropout_rate'' (VFloat (1 / 10))\<rparr>"
  using assms by (simp add: transformer_encoder_layer_def lookup_def py_mul_int_def)

lemma block_assertion:
  "shape_of x = Inr sh \<Longrightarrow> \<not> dim_eq (last_dim sh) (te_d_model env) \<Longrightarrow>
   block env x = Inl AssertionError"
  by (simp add: block_def)

lemma block_shape:
  assumes x: "shape_of x = Inr sh" and rank: "2 \<le> length sh" "length sh \<le> 12"
    and last: "last sh = d"
    and d_model: "te_d_model env = VInt d" and n_head: "te_n_head env = VInt n"
    and n: "0 < n" "n \<le> d"
    and ff: "te_dim_feedforward env = VInt ff" "0 < ff"
    and act: "activations_get (te_activation env) = Inr a"
    and rate: "dropout_rate_ok (te_dropout_rate env) = Inr r"
  shows "\<exists>y. block env x = Inr y \<and> shape_of y = Inr sh"
proof -
  have nonempty: "sh \<noteq> []"
    using rank by auto
  have key_dim: "0 < d div n"
    using n by (simp add: pos_imp_zdiv_pos_iff)
  have d: "0 < d"
    using n by simp
  have restored: "butlast sh @ [d] = sh"
    using nonempty last by (metis append_butlast_last_id)
  have linear: "activations_get VNone = Inr (VStr ''linear'')"
    by (simp add: activations_get_def)
  show ?thesis
    using x rank nonempty key_dim d n ff restored
    by (simp add: block_def d_model n_head last dim_eq_def last_dim_def py_eq_int_def
        py_floordiv_def MultiHeadAttention_def positive_int_def keras_call2_def keras_call_def
        tensor_add_def broadcast_same Dense_def layer_shape_dense Dropout_def act rate linear)
qed

text \<open>
  With \<^verbatim>\<open>n_head = 0\<close> an input whose last dimension is \<^verbatim>\<open>d_model\<close> passes
  the assertion, and \<^verbatim>\<open>d_model//n_head\<close> then raises: there is no output.
\<close>

theorem transformer_block_zero_heads:
  "bindE (transformer_encoder_layer [''d_model'' \<mapsto> VInt 64, ''n_head'' \<mapsto> VInt 0])
     (\<lambda>env. block env (Input [100, 64])) = Inl ZeroDivisionError"
  by (simp add: transformer_encoder_layer_def lookup_def get_default_def py_mul_int_def
      block_def dim_eq_def last_dim_def py_eq_int_def py_floordiv_def)

text \<open>
  Claim C10, amended. The function returned by \<^verbatim>\<open>transformer_encoder_layer\<close>
  requires the last dimension of its input to equal \<^verbatim>\<open>d_model\<close>, an integer:
  on an input whose last dimension differs the assertion fails. On an input of 2 to
  12 dimensions besides the batch (a sequence of feature vectors) whose last
  dimension is \<^verbatim>\<open>d_model\<close> the assertion passes and the output has the shape of
  the input, when the configuration is valid: \<^verbatim>\<open>n_head\<close> a positive integer
  not above \<^verbatim>\<open>d_model\<close>, \<^verbatim>\<open>dim_feedforward\<close> a positive integer or
  absent, the activation a known name or absent, and the dropout rate a number in
  [0, 1) or absent.
\<close>

theorem transformer_block_precondition:
  "(cfg ''d_model'' = Some (VInt d) \<longrightarrow> cfg ''n_head'' = Some n_head \<longrightarrow>
      shape_of x = Inr sh \<longrightarrow> sh \<noteq> [] \<longrightarrow> last sh \<noteq> d \<longrightarrow>
      (\<exists>env. transformer_encoder_layer cfg = Inr env \<and> block env x = Inl AssertionError))
   \<and> (cfg ''d_model'' = Some (VInt d) \<longrightarrow> cfg ''n_head'' = Some (VInt n) \<longrightarrow>
      0 < n \<longrightarrow> n \<le> d \<longrightarrow>
      get_default cfg ''dim_feedforward'' (VInt (d * 4)) = VInt ff \<longrightarrow> 0 < ff \<longrightarrow>
      activations_get (get_default cfg ''activation'' (VStr ''relu'')) = Inr a \<longrightarrow>
      dropout_rate_ok (get_default cfg ''dropout_rate'' (VFloat (1 / 10))) = Inr r \<longrightarrow>
      shape_of x = Inr sh \<longrightarrow> 2 \<le> length sh \<longrightarrow> length sh \<le> 12 \<longrightarrow> last sh = d \<longrightarrow>
      (\<exists>env y. transformer_encoder_layer cfg = Inr env \<and> block env x = Inr y
         \<and> shape_of y = Inr sh))"
proof -
  have fails: "\<exists>env. transformer_encoder_layer cfg = Inr env \<and> block env x = Inl AssertionError"
    if d_model: "cfg ''d_model'' = Some (VInt d)" and n_head: "cfg ''n_head'' = Some n_head"
      and x: "shape_of x = Inr sh" and sh: "sh \<noteq> []" "last sh \<noteq> d"
  proof -
    define env where "env = \<lparr>te_d_model = VInt d, te_n_head = n_head,
          te_activation = get_default cfg ''activation'' (VStr ''relu''),
          te_dim_feedforward = get_default cfg ''dim_feedforward'' (VInt (d * 4)),
          te_dropout_rate = get_default cfg ''dropout_rate'' (VFloat (1 / 10))\<rparr>"
    have built: "transformer_encoder_layer cfg = Inr env"
      unfolding env_def using d_model n_head by (rule transformer_encoder_layer_env)
    have "block env x = Inl AssertionError"
      using x sh
      by (intro block_assertion) (auto simp: env_def dim_eq_def last_dim_def py_eq_int_def)
    with built show ?thesis by blast
  qed
  have passes: "\<exists>env y. transformer_encoder_layer cfg = Inr env \<and> block env x = Inr y
         \<and> shape_of y = Inr sh"
    if d_model: "cfg ''d_model'' = Some (VInt d)" and n_head: "cfg ''n_head'' = Some (VInt n)"
      and n: "0 < n" "n \<le> d"
      and ff: "get_default cfg ''dim_feedforward'' (VInt (d * 4)) = VInt ff" "0 < ff"
      and act: "activations_get (get_default cfg ''activation'' (VStr ''relu'')) = Inr a"
      and rate: "dropout_rate_ok (get_default cfg ''dropout_rate'' (VFloat (1 / 10))) = Inr r"
      and x: "shape_of x = Inr sh" and rank: "2 \<le> length sh" "length sh \<le> 12"
      and last: "last sh = d"
  proof -
    define env where "env = \<lparr>te_d_model = VInt d, te_n_head = VInt n,
          te_activation = get_default cfg ''activation'' (VStr ''relu''),
          te_dim_feedforward = get_default cfg ''dim_feedforward'' (VInt (d * 4)),
          te_dropout_rate = get_default cfg ''dropout_rate'' (VFloat (1 / 10))\<rparr>"
    have built: "transformer_encoder_layer cfg = Inr env"
      unfolding env_def using d_model n_head by (rule transformer_encoder_layer_env)
    have fields: "te_d_model env = VInt d" "te_n_head env = VInt n"
      "te_dim_feedforward env = VInt ff"
      "activations_get (te_activation env) = Inr a"
      "dropout_rate_ok (te_dropout_rate env) = Inr r"
      by (simp_all add: env_def ff(1) act rate)
    have "\<exists>y. block env x = Inr y \<and> shape_of y = Inr sh"
      using x rank last fields(1,2) n fields(3) ff(2) fields(4,5) by (rule block_shape)
    with built show ?thesis by blast
  qed
  from fails passes show ?thesis by blast
qed

theorem transformer_block_precondition_witness:
  "bindE (transformer_encoder_layer [''d_model'' \<mapsto> VInt 64, ''n_head'' \<mapsto> VInt 8])
     (\<lambda>env. bindE (block env (Input [100, 64])) shape_of) = Inr [100, 64]
   \<and> bindE (transformer_encoder_layer [''d_model'' \<mapsto> VInt 64, ''n_head'' \<mapsto> VInt 8])
     (\<lambda>env. block env (Input [100, 32])) = Inl AssertionError"
proof -
  let ?cfg = "[''d_model'' \<mapsto> VInt 64, ''n_head'' \<mapsto> VInt 8]"
  note inst = transformer_block_precondition [of ?cfg 64 "VInt 8" _ _ 8 256 "VStr ''relu''"
      "VFloat (1 / 10)"]
  have "\<exists>env. transformer_encoder_layer ?cfg = Inr env
           \<and> block env (Input [100, 32]) = Inl AssertionError"
    using inst [of "Input [100, 32]" "[100, 32]"] by simp
  moreover have "\<exists>env y. transformer_encoder_layer ?cfg = Inr env
           \<and> block env (Input [100, 64]) = Inr y \<and> shape_of y = Inr [100, 64]"
    using inst [of "Input [100, 64]" "[100, 64]"]
    by (simp add: get_default_def relu_known dropout_rate_ok_def)
  ultimately show ?thesis by auto
qed

section \<open>The shapes of the two catalogs\<close>

lemma conv_norm_loop_contract:
  assumes cv: "\<And>h w c cx. \<exists>cx'. cv [h, w, c] (VInt f) (VInt 3) cx = Inr (cx', [h, w, f])"
    and nm: "\<And>h w c cx. \<exists>cx'. nm [h, w, c] cx = Inr (cx', [h, w, c])"
  shows "\<exists>cx'. conv_norm_loop cv nm (VInt f) n cx [h, w, c] =
           Inr (cx', [h, w, if n = 0 then c else f])"
proof (induction n arbitrary: cx c)
  case 0
  show ?case by simp
next
  case (Suc n)
  from cv [of h w c cx] obtain cx0 where
    conv: "cv [h, w, c] (VInt f) (VInt 3) cx = Inr (cx0, [h, w, f])"
    by blast
  from nm [of h w f cx0] obtain cx1 where norm: "nm [h, w, f] cx0 = Inr (cx1, [h, w, f])"
    by blast
  from Suc.IH [of cx1 f] obtain cx' where
    "conv_norm_loop cv nm (VInt f) n cx1 [h, w, f] = Inr (cx', [h, w, if n = 0 then f else f])"
    by blast
  with conv norm show ?case by simp
qed

lemma simple_conv_stage_complexity_contract:
  assumes cv: "\<And>h w c cx. \<exists>cx'. cv [h, w, c] (VInt f) (VInt 3) cx = Inr (cx', [h, w, f])"
    and nm: "\<And>h w c cx. \<exists>cx'. nm [h, w, c] cx = Inr (cx', [h, w, c])"
    and pl: "\<And>cx. \<exists>cx'. pl [h, w, f] (VInt p) VNone cx = Inr (cx', [h div p, w div p, f])"
    and d: "1 \<le> d"
  shows "map_sum id snd (simple_conv_stage_complexity cv nm pl (scalar_config f d p) [h, w, c]) =
           Inr [h div p, w div p, f]"
proof -
  have n: "nat d \<noteq> 0"
    using d by simp
  obtain cx0 where loop:
    "conv_norm_loop cv nm (VInt f) (nat d) Map.empty [h, w, c] = Inr (cx0, [h, w, f])"
    using conv_norm_loop_contract [of cv f nm "nat d" Map.empty h w c, OF cv nm] n by auto
  from pl [of cx0] obtain cx1 where
    pool: "pl [h, w, f] (VInt p) VNone cx0 = Inr (cx1, [h div p, w div p, f])"
    by blast
  show ?thesis
    by (simp add: simple_conv_stage_complexity_def scalar_config_def lookup_def get_default_def
        py_range_def loop pool)
qed

text \<open>
  The primitive complexity functions, as modelled from the specification, follow its
  shape rules.
\<close>

lemma spec_primitives_contract:
  "0 < f \<Longrightarrow> \<exists>cx'. conv2d_complexity_default [h, w, c] (VInt f) (VInt 3) cx = Inr (cx', [h, w, f])"
  "\<exists>cx'. norm_complexity [h, w, c] cx = Inr (cx', [h, w, c])"
  "0 < p \<Longrightarrow> \<exists>cx'. pool2d_complexity [h, w, c] (VInt p) VNone cx =
                    Inr (cx', [h div p, w div p, c])"
  by (simp_all add: conv2d_complexity_default_def conv2d_complexity_def positive_int_def
      normalize_pair_def out_length_def norm_complexity_def pool2d_complexity_def pool_length
      Let_def)

lemma conv_block_loop_append:
  "conv_block_loop env (xs @ ys) x = bindE (conv_block_loop env xs x) (conv_block_loop env ys)"
  by (induction xs arbitrary: x) (simp_all split: sum.splits)

lemma conv_block_loop_unit_pools:
  assumes "shape_of x = Inr [h, w, c]" "0 < h" "0 < w" "0 < f"
    and "\<And>i. i \<in> set idx \<Longrightarrow> py_index (cb_filters env) i = Inr (VInt f)
                           \<and> py_index (cb_pool_size env) i = Inr (VInt 1)"
    and "cb_dropout_rate env = VFloat 0"
  shows "\<exists>y. conv_block_loop env idx x = Inr y
           \<and> shape_of y = Inr [h, w, if idx = [] then c else f]"
  using assms
proof (induction idx arbitrary: x c)
  case Nil
  then show ?case by simp
next
  case (Cons i idx)
  have "\<exists>y. conv_block_step env i x = Inr y \<and> shape_of y = Inr [h div 1, w div 1, f]"
    using Cons.prems by (intro conv_block_step_shape) auto
  then obtain y1 where y1: "conv_block_step env i x = Inr y1"
    and s1: "shape_of y1 = Inr [h, w, f]"
    by auto
  have "\<exists>y. conv_block_loop env idx y1 = Inr y
           \<and> shape_of y = Inr [h, w, if idx = [] then f else f]"
    using s1 Cons.prems by (intro Cons.IH) auto
  with y1 show ?case by simp
qed

lemma nth_Cons_replicate: "i \<le> m \<Longrightarrow> (v # replicate m v) ! i = v"
  by (cases i) simp_all

lemma conv_block_per_layer_shape:
  assumes f: "0 < f" and d: "1 \<le> d" and p: "0 < p" "p \<le> h" "p \<le> w"
    and x: "shape_of x = Inr [h, w, c]"
  shows "bindE (simple_conv_block (per_layer_config f d p))
           (\<lambda>env. bindE (conv_block env x) shape_of) = Inr [h div p, w div p, f]"
proof -
  obtain m where m: "nat d = Suc m"
    using d by (cases "nat d") auto
  define env where "env = \<lparr>cb_filters = VList (replicate (Suc m) (VInt f)),
      cb_pool_size = VList (replicate m (VInt 1) @ [VInt p]), cb_dropout_rate = VFloat 0,
      cb_kernel_regularizer = (VFloat 0, VFloat 0)\<rparr>"
  have built: "simple_conv_block (per_layer_config f d p) = Inr env"
    by (simp add: simple_conv_block_def per_layer_config_def lookup_def get_default_def
        l1_l2_default match_filters_def py_len_def m env_def)
  have hw: "0 < h" "0 < w"
    using p by simp_all
  have "\<exists>y. conv_block_loop env [0..<m] x = Inr y
           \<and> shape_of y = Inr [h, w, if [0..<m] = [] then c else f]"
    using x hw f
    by (rule conv_block_loop_unit_pools) (auto simp: env_def py_index_def nth_append nth_Cons_replicate)
  then obtain y1 c1 where y1: "conv_block_loop env [0..<m] x = Inr y1"
    and s1: "shape_of y1 = Inr [h, w, c1]"
    by blast
  have "\<exists>y. conv_block_step env m y1 = Inr y \<and> shape_of y = Inr [h div p, w div p, f]"
    using s1 f p
    by (intro conv_block_step_shape) (auto simp: env_def py_index_def nth_append nth_Cons_replicate)
  then obtain y2 where y2: "conv_block_step env m y1 = Inr y2"
    and s2: "shape_of y2 = Inr [h div p, w div p, f]"
    by blast
  have "conv_block env x = Inr y2"
    using y1 y2 by (simp add: conv_block_def env_def py_len_def conv_block_loop_append)
  with built s2 show ?thesis by simp
qed


lemma keras_call_InrD:
  assumes "keras_call l x = Inr y"
  shows "y = Call l x \<and> (\<exists>sx sy. shape_of x = Inr sx \<and> layer_shape l sx = Inr sy
           \<and> shape_of y = Inr sy)"
  using assms by (auto simp: keras_call_def elim!: bindE_InrE split: sum.splits)

lemma tensor_add_InrD:
  assumes "tensor_add a b = Inr y"
  shows "y = Plus a b \<and> (\<exists>sa sb sy. shape_of a = Inr sa \<and> shape_of b = Inr sb
           \<and> broadcast sa sb = Inr sy \<and> shape_of y = Inr sy)"
  using assms by (auto simp: tensor_add_def elim!: bindE_InrE split: sum.splits)

lemma layer_shape_conv:
  assumes "layer_shape (LConv2D f k s pad g) [h, w, c] = Inr sh'"
  shows "sh' = [out_length pad h (fst k) (fst s), out_length pad w (snd k) (snd s), f]"
  using assms by (auto simp: window_shape_def Let_def split: if_splits)

lemma window_shape_Inr:
  assumes "window_shape pad k s h w c = Inr sh'"
  shows "sh' = [out_length pad h (fst k) (fst s), out_length pad w (snd k) (snd s), c]"
  using assms by (auto simp: window_shape_def Let_def split: if_splits)

lemma same_length: "0 < s \<Longrightarrow> (n + s - 1) div s = (n - 1) div s + (1::int)"
  using div_add_self2 [of s "n - 1"] by (simp add: algebra_simps)

lemma bottleneck_block_shape:
  assumes run: "bottleneck_block env x = Inr y"
    and x: "shape_of x = Inr [h, w, c]"
  shows "\<exists>f s g. positive_int (bn_filters env) = Inr f
           \<and> normalize_pair (bn_strides env) = Inr s
           \<and> positive_int (bn_groups env) = Inr g
           \<and> 0 < bn_bottleneck_size env
           \<and> shape_of y = Inr [(h + fst s - 1) div fst s, (w + snd s - 1) div snd s, f]"
proof -
  from run obtain conv1 o1 o2 act1 o3 conv2 o4 o5 act2 o6 conv3 o7 o8 project inputs' act3 added
    where
    conv1: "Conv2D (bn_filters env) (VInt 1) (VTuple [VInt 1, VInt 1]) Valid (VInt 1) = Inr conv1"
    and o1: "keras_call conv1 x = Inr o1"
    and o2: "keras_call LBatchNormalization o1 = Inr o2"
    and act1: "Activation (bn_activation env) = Inr act1"
    and o3: "keras_call act1 o2 = Inr o3"
    and conv2: "Conv2D (VInt (bn_bottleneck_size env)) (VInt 3) (bn_strides env) Same
                  (bn_groups env) = Inr conv2"
    and o4: "keras_call conv2 o3 = Inr o4"
    and o5: "keras_call LBatchNormalization o4 = Inr o5"
    and act2: "Activation (bn_activation env) = Inr act2"
    and o6: "keras_call act2 o5 = Inr o6"
    and conv3: "Conv2D (bn_filters env) (VInt 1) (VTuple [VInt 1, VInt 1]) Valid (VInt 1) = Inr conv3"
    and o7: "keras_call conv3 o6 = Inr o7"
    and o8: "keras_call LBatchNormalization o7 = Inr o8"
    and project: "needs_projection env x = Inr project"
    and inputs': "(if project then
              bindE (Conv2D (bn_filters env) (VInt 1) (bn_strides env) Valid (VInt 1))
                (\<lambda>shortcut. keras_call shortcut x)
            else Inr x) = Inr inputs'"
    and act3: "Activation (bn_activation env) = Inr act3"
    and added: "tensor_add o8 inputs' = Inr added"
    and y: "keras_call act3 added = Inr y"
    unfolding bottleneck_block_def by (elim bindE_InrE) blast
  from Activation_Inr [OF act1] Activation_Inr [OF act2] Activation_Inr [OF act3]
  obtain a1 a2 a3 where acts: "act1 = LActivation a1" "act2 = LActivation a2"
    "act3 = LActivation a3"
    by blast
  from Conv2D_Inr [OF conv1] obtain f where f: "positive_int (bn_filters env) = Inr f"
    and c1: "conv1 = LConv2D f (1, 1) (1, 1) Valid 1"
    by (auto simp: normalize_pair_def positive_int_def)
  from Conv2D_Inr [OF conv3] f have c3: "conv3 = LConv2D f (1, 1) (1, 1) Valid 1"
    by (auto simp: normalize_pair_def positive_int_def)
  from Conv2D_Inr [OF conv2] obtain s g where s: "normalize_pair (bn_strides env) = Inr s"
    and g: "positive_int (bn_groups env) = Inr g"
    and b: "0 < bn_bottleneck_size env"
    and c2: "conv2 = LConv2D (bn_bottleneck_size env) (3, 3) s Same g"
    by (auto simp: normalize_pair_def positive_int_def split: if_splits)
  have spos: "0 < fst s" "0 < snd s"
    using s by (auto simp: normalize_pair_def split: pyval.splits list.splits if_splits)
  have s1: "shape_of o1 = Inr [h, w, f]"
    using keras_call_InrD [OF o1] x c1 by (auto dest!: layer_shape_conv window_shape_Inr simp: out_length_def split: if_splits)
  have s3: "shape_of o3 = Inr [h, w, f]"
    using keras_call_InrD [OF o2] keras_call_InrD [OF o3] s1 acts by auto
  have s4: "shape_of o4 = Inr [(h + fst s - 1) div fst s, (w + snd s - 1) div snd s,
      bn_bottleneck_size env]"
    using keras_call_InrD [OF o4] s3 c2 by (auto dest!: layer_shape_conv window_shape_Inr simp: out_length_def split: if_splits)
  have s6: "shape_of o6 = Inr [(h + fst s - 1) div fst s, (w + snd s - 1) div snd s,
      bn_bottleneck_size env]"
    using keras_call_InrD [OF o5] keras_call_InrD [OF o6] s4 acts by auto
  have s7: "shape_of o7 = Inr [(h + fst s - 1) div fst s, (w + snd s - 1) div snd s, f]"
    using keras_call_InrD [OF o7] s6 c3 by (auto dest!: layer_shape_conv window_shape_Inr simp: out_length_def split: if_splits)
  have s8: "shape_of o8 = Inr [(h + fst s - 1) div fst s, (w + snd s - 1) div snd s, f]"
    using keras_call_InrD [OF o8] s7 by auto
  have si: "shape_of inputs' = Inr [(h + fst s - 1) div fst s, (w + snd s - 1) div snd s, f]"
  proof (cases project)
    case True
    with inputs' obtain shortcut where
      sc: "Conv2D (bn_filters env) (VInt 1) (bn_strides env) Valid (VInt 1) = Inr shortcut"
      and call: "keras_call shortcut x = Inr inputs'"
      by (auto elim!: bindE_InrE)
    from Conv2D_Inr [OF sc] f s have "shortcut = LConv2D f (1, 1) s Valid 1"
      by (auto simp: normalize_pair_def positive_int_def)
    then show ?thesis
      using keras_call_InrD [OF call] x spos
      by (auto dest!: layer_shape_conv window_shape_Inr simp: out_length_def same_length split: if_splits)
  next
    case False
    then have ones: "py_eq_ones (bn_strides env)"
      and chan: "dim_eq (last_dim [h, w, c]) (bn_filters env)"
      using project x by (auto simp: needs_projection_def split: if_splits)
    from ones normalize_pair_ones [OF s] s have "s = (1, 1)"
      by (simp add: normalize_pair_def)
    moreover have "c = f"
      using chan f
      by (auto simp: dim_eq_def last_dim_def py_eq_int_def positive_int_def
          split: pyval.splits if_splits)
    moreover have "inputs' = x"
      using inputs' False by simp
    ultimately show ?thesis
      using x by simp
  qed
  have "shape_of added = Inr [(h + fst s - 1) div fst s, (w + snd s - 1) div snd s, f]"
    using tensor_add_InrD [OF added] s8 si by (auto simp: broadcast_same)
  then have "shape_of y = Inr [(h + fst s - 1) div fst s, (w + snd s - 1) div snd s, f]"
    using keras_call_InrD [OF y] acts by auto
  with f s g b show ?thesis by blast
qed


lemma res_bottleneck_block_Inr:
  assumes "res_bottleneck_block cfg = Inr env"
  shows "\<exists>filters strides groups ratio.
           cfg ''filters'' = Some filters \<and> cfg ''strides'' = Some strides
         \<and> cfg ''groups'' = Some groups \<and> cfg ''bottleneck_ratio'' = Some ratio
         \<and> bn_filters env = filters
         \<and> bn_strides env = (if isinstance_int strides then VTuple [strides, strides] else strides)
         \<and> bn_groups env = groups
         \<and> py_int_of_product filters ratio = Inr (bn_bottleneck_size env)"
  using assms
  by (auto simp: res_bottleneck_block_def lookup_def Let_def elim!: bindE_InrE
      split: option.splits)

lemma res_bottleneck_block_complexity_shape:
  assumes built: "res_bottleneck_block cfg = Inr env"
    and f: "positive_int (bn_filters env) = Inr f"
    and s: "normalize_pair (bn_strides env) = Inr s"
    and g: "positive_int (bn_groups env) = Inr g"
    and b: "0 < bn_bottleneck_size env"
  shows "\<exists>cx. res_bottleneck_block_complexity cfg [h, w, c] =
           Inr (cx, [(h + fst s - 1) div fst s, (w + snd s - 1) div snd s, f])"
proof -
  from res_bottleneck_block_Inr [OF built] obtain filters strides groups ratio where
    keys: "cfg ''filters'' = Some filters" "cfg ''strides'' = Some strides"
      "cfg ''groups'' = Some groups" "cfg ''bottleneck_ratio'' = Some ratio"
    and env: "bn_filters env = filters"
      "bn_strides env = (if isinstance_int strides then VTuple [strides, strides] else strides)"
      "bn_groups env = groups"
      "py_int_of_product filters ratio = Inr (bn_bottleneck_size env)"
    by blast
  define strides' where
    "strides' = (if isinstance_int strides then VTuple [strides, strides] else strides)"
  have f': "positive_int filters = Inr f" and s': "normalize_pair strides' = Inr s"
    and g': "positive_int groups = Inr g"
    using f s g env by (simp_all add: strides'_def)
  have one: "normalize_pair (VInt 1) = Inr (1, 1)" "positive_int (VInt 1) = Inr 1"
    by (simp_all add: normalize_pair_def positive_int_def)
  have three: "normalize_pair (VInt 3) = Inr (3, 3)"
    by (simp add: normalize_pair_def)
  have bpos: "positive_int (VInt (bn_bottleneck_size env)) = Inr (bn_bottleneck_size env)"
    using b by (simp add: positive_int_def)
  have "res_bottleneck_block_complexity cfg [h, w, c] =
      bindE (lookup cfg ''filters'') (\<lambda>filters.
      bindE (lookup cfg ''strides'') (\<lambda>strides.
      bindE (lookup cfg ''groups'') (\<lambda>groups.
      bindE (lookup cfg ''bottleneck_ratio'') (\<lambda>bottleneck_ratio.
      let strides = (if isinstance_int strides then VTuple [strides, strides] else strides) in
      bindE (py_int_of_product filters bottleneck_ratio) (\<lambda>bottleneck_size.
      bindE (conv2d_complexity [h, w, c] filters (VInt 1) (VInt 1) (VInt 1) Map.empty)
        (\<lambda>(cx, shape).
      bindE (norm_complexity shape cx) (\<lambda>(cx, shape).
      bindE (conv2d_complexity shape (VInt bottleneck_size) (VInt 3) strides groups cx)
        (\<lambda>(cx, shape).
      bindE (norm_complexity shape cx) (\<lambda>(cx, shape).
      bindE (conv2d_complexity shape filters (VInt 1) (VInt 1) (VInt 1) cx) (\<lambda>(cx, shape).
      bindE (norm_complexity shape cx) (\<lambda>(cx, shape).
        if \<not> py_eq_ones strides \<or> \<not> dim_eq (last_dim [h, w, c]) filters then
          bindE (conv2d_complexity [h, w, c] filters (VInt 1) strides (VInt 1) cx)
            (\<lambda>(cx, shortcut_shape). Inr (cx, shape))
        else Inr (cx, shape))))))))))))"
    by (simp add: res_bottleneck_block_complexity_def)
  then show ?thesis
    using keys env(4) f' s' g' one three bpos
    by (simp add: lookup_def strides'_def [symmetric] conv2d_complexity_def norm_complexity_def
        out_length_def Let_def)
qed


lemma bottleneck_block_refines:
  assumes built: "res_bottleneck_block cfg = Inr env"
    and run: "bottleneck_block env x = Inr y"
    and x: "shape_of x = Inr sh"
  shows "\<exists>cx sh'. shape_of y = Inr sh' \<and> res_bottleneck_block_complexity cfg sh = Inr (cx, sh')"
proof -
  from bottleneck_block_Inr [OF run] x obtain h w c where sh: "sh = [h, w, c]"
    by auto
  from bottleneck_block_shape [OF run x [unfolded sh]] obtain f s g where
    "positive_int (bn_filters env) = Inr f" "normalize_pair (bn_strides env) = Inr s"
    "positive_int (bn_groups env) = Inr g" "0 < bn_bottleneck_size env"
    and y: "shape_of y = Inr [(h + fst s - 1) div fst s, (w + snd s - 1) div snd s, f]"
    by blast
  from res_bottleneck_block_complexity_shape [OF built this(1-4), of h w c] y sh
  show ?thesis by auto
qed

lemma stage_loop_refines:
  assumes agree: "\<And>cfg env x y sh. res_bottleneck_block cfg = Inr env \<Longrightarrow>
      bottleneck_block env x = Inr y \<Longrightarrow> shape_of x = Inr sh \<Longrightarrow>
      \<exists>cx sh'. shape_of y = Inr sh' \<and> blk cfg sh = Inr (cx, sh')"
    and "stage_loop a n g x = (g', Inr y)" and "shape_of x = Inr sh"
  shows "\<exists>cx sh'. shape_of y = Inr sh'
           \<and> snd (residual_stage_loop blk a n g tcx sh) = Inr (cx, sh')"
  using assms(2,3)
proof (induction n arbitrary: g x sh tcx)
  case 0
  then show ?case by simp
next
  case (Suc n)
  from Suc.prems(1) obtain x' where
    step: "bindE (res_bottleneck_block (g ! a)) (\<lambda>block. bottleneck_block block x) = Inr x'"
    and rest: "stage_loop a n (setitem g a ''strides'' (VInt 1)) x' = (g', Inr y)"
    by (auto split: sum.splits)
  from step obtain env where built: "res_bottleneck_block (g ! a) = Inr env"
    and run: "bottleneck_block env x = Inr x'"
    by (auto elim!: bindE_InrE)
  from agree [OF built run Suc.prems(2)] obtain cx sh1 where
    x': "shape_of x' = Inr sh1"
    and blk: "blk (g ! a) sh = Inr (cx, sh1)"
    by blast
  from Suc.IH [OF rest x', of "dict_add tcx cx"] blk show ?case
    by simp
qed

lemma res_bottleneck_stage_refines:
  assumes agree: "\<And>cfg env x y sh. res_bottleneck_block cfg = Inr env \<Longrightarrow>
      bottleneck_block env x = Inr y \<Longrightarrow> shape_of x = Inr sh \<Longrightarrow>
      \<exists>cx sh'. shape_of y = Inr sh' \<and> blk cfg sh = Inr (cx, sh')"
    and built: "res_bottleneck_stage h a = (h1, Inr env)"
    and run: "stage env h1 x = (h2, Inr y)"
    and x: "shape_of x = Inr sh"
  shows "\<exists>sh'. shape_of y = Inr sh'
           \<and> map_sum id snd (snd (res_bottleneck_stage_complexity blk h a sh)) = Inr sh'"
proof -
  from built obtain depth strides where
    keys: "lookup (h ! a) ''depth'' = Inr depth" "lookup (h ! a) ''strides'' = Inr strides"
    and env: "env = \<lparr>st_depth = depth, st_model_config = length h\<rparr>"
    and h1: "h1 = h @ [h ! a]"
    by (auto simp: res_bottleneck_stage_def deepcopy_def split: sum.splits)
  from run env obtain n where n: "py_range depth = Inr n"
    and loop: "stage_loop (length h) n h1 x = (h2, Inr y)"
    by (auto simp: stage_def split: sum.splits)
  have "\<exists>cx sh'. shape_of y = Inr sh'
           \<and> snd (residual_stage_loop blk (length h) n h1 Map.empty sh) = Inr (cx, sh')"
    by (rule stage_loop_refines [where blk = blk and a = "length h" and n = n and g = h1
          and x = x and g' = h2 and y = y and sh = sh and tcx = Map.empty, OF _ loop x])
       (rule agree)
  then obtain cx sh' where
    y: "shape_of y = Inr sh'"
    and cx: "snd (residual_stage_loop blk (length h) n h1 Map.empty sh) = Inr (cx, sh')"
    by blast
  have "snd (res_bottleneck_stage_complexity blk h a sh) = Inr (cx, sh')"
    using keys n cx h1 by (simp add: res_bottleneck_stage_complexity_def deepcopy_def)
  with y show ?thesis by simp
qed

lemma stage_example:
  "bindE (snd (stage \<lparr>st_depth = VInt 3, st_model_config = 1\<rparr>
       [bottleneck_config, bottleneck_config] (Input [64, 64, 16]))) shape_of = Inr [32, 32, 32]"
  by (simp add: stage_def py_range_def eval_nat_numeral setitem_def
      res_bottleneck_block_def bottleneck_config_def lookup_def get_default_def
      isinstance_int_def bottleneck_size_half
      bottleneck_block_def Conv2D_def positive_int_def normalize_pair_def
      keras_call_def tensor_add_def window_shape_def out_length_def needs_projection_def
      py_eq_ones_def py_eq_int_def dim_eq_def last_dim_def Activation_relu)

lemma conv_block_example:
  "bindE (conv_block \<lparr>cb_filters = VList [VInt 16, VInt 32], cb_pool_size = VList [VInt 2, VInt 2],
       cb_dropout_rate = VFloat 0, cb_kernel_regularizer = (VFloat 0, VFloat 0)\<rparr>
       (Input [64, 64, 3])) shape_of = Inr [16, 16, 32]"
  by (simp add: conv_block_def py_len_def upt_rec conv_block_step_def py_index_def Conv2D_def
      MaxPooling2D_def positive_int_def normalize_pair_def keras_call_def window_shape_def
      out_length_def Activation_relu Dropout_zero)

lemma simple_conv_block_ignores_depth:
  "simple_conv_block (simple_conv_config(''depth'' \<mapsto> v)) = simple_conv_block simple_conv_config"
  by (simp add: simple_conv_block_def simple_conv_config_def lookup_def get_default_def)

text \<open>
  On the configuration \<^verbatim>\<open>filters=[16,32], pool_size=[2,2]\<close> and the input shape
  (64, 64, 3) the pipeline of \<^verbatim>\<open>simple_conv_block\<close> gives (16, 16, 32), while
  \<^verbatim>\<open>simple_conv_stage_complexity\<close> fails on the key \<^verbatim>\<open>depth\<close>; with a
  \<^verbatim>\<open>depth\<close> of 0 added, the block still gives (16, 16, 32) and the complexity
  function (32, 32, 3).
\<close>

theorem simple_conv_shapes_disagree:
  "bindE (simple_conv_block simple_conv_config)
     (\<lambda>env. bindE (conv_block env (Input [64, 64, 3])) shape_of) = Inr [16, 16, 32]
   \<and> map_sum id snd
        (simple_conv_stage_complexity conv2d_complexity_default norm_complexity pool2d_complexity
           simple_conv_config [64, 64, 3]) = Inl (KeyError (VStr ''depth''))
   \<and> bindE (simple_conv_block (simple_conv_config(''depth'' \<mapsto> VInt 0)))
        (\<lambda>env. bindE (conv_block env (Input [64, 64, 3])) shape_of) = Inr [16, 16, 32]
   \<and> map_sum id snd
        (simple_conv_stage_complexity conv2d_complexity_default norm_complexity pool2d_complexity
           (simple_conv_config(''depth'' \<mapsto> VInt 0)) [64, 64, 3]) = Inr [32, 32, 3]"
proof -
  have block: "bindE (simple_conv_block simple_conv_config)
     (\<lambda>env. bindE (conv_block env (Input [64, 64, 3])) shape_of) = Inr [16, 16, 32]"
    by (simp add: simple_conv_block_example conv_block_example)
  have missing: "simple_conv_stage_complexity conv2d_complexity_default norm_complexity
      pool2d_complexity simple_conv_config [64, 64, 3] = Inl (KeyError (VStr ''depth''))"
    by (simp add: simple_conv_stage_complexity_def simple_conv_config_def lookup_def)
  have pooled: "map_sum id snd
        (simple_conv_stage_complexity conv2d_complexity_default norm_complexity pool2d_complexity
           (simple_conv_config(''depth'' \<mapsto> VInt 0)) [64, 64, 3]) = Inr [32, 32, 3]"
    by (simp add: simple_conv_stage_complexity_def simple_conv_config_def lookup_def
        get_default_def py_range_def pool2d_complexity_def normalize_pair_def out_length_def)
  from block missing pooled show ?thesis
    by (simp add: simple_conv_block_ignores_depth)
qed

text \<open>
  Claim C1, amended. The simple stage complexity function and the simple convolution
  block read different configurations, and agree on corresponding ones. Let the
  primitive complexity functions follow the shape rules of the specification: a
  3\<times>3 convolution with \<open>f\<close> filters turns \<open>(h, w, c)\<close> into \<open>(h, w, f)\<close>,
  a normalisation keeps the shape, and a pooling of size \<open>p\<close> with no stride given
  turns \<open>(h, w, f)\<close> into \<open>(h div p, w div p, f)\<close>. Then on a scalar
  \<^verbatim>\<open>filters\<close> \<open>f\<close>, a depth \<open>d \<ge> 1\<close> and a pool size \<open>p\<close>,
  \<^verbatim>\<open>simple_conv_stage_complexity\<close> returns the shape \<open>(h div p, w div p, f)\<close>,
  which is the shape the pipeline of \<^verbatim>\<open>simple_conv_block\<close> produces on the
  per-layer form of that configuration. For the residual bottleneck stage, let the
  block complexity function return, on every configuration, the shape of the tensor
  that the bottleneck block produces; then, whenever the stage built by
  \<^verbatim>\<open>res_bottleneck_stage\<close> produces a tensor, \<^verbatim>\<open>res_bottleneck_stage_complexity\<close>
  returns the shape of that tensor on the same configuration.
\<close>

theorem stage_shapes_agree:
  "((\<forall>h' w' c' cx. \<exists>cx'. cv [h', w', c'] (VInt f) (VInt 3) cx = Inr (cx', [h', w', f])) \<longrightarrow>
    (\<forall>h' w' c' cx. \<exists>cx'. nm [h', w', c'] cx = Inr (cx', [h', w', c'])) \<longrightarrow>
    (\<forall>cx. \<exists>cx'. pl [h, w, f] (VInt p) VNone cx = Inr (cx', [h div p, w div p, f])) \<longrightarrow>
    0 < f \<longrightarrow> 1 \<le> d \<longrightarrow> 0 < p \<longrightarrow> p \<le> h \<longrightarrow> p \<le> w \<longrightarrow> shape_of x1 = Inr [h, w, c] \<longrightarrow>
      map_sum id snd (simple_conv_stage_complexity cv nm pl (scalar_config f d p) [h, w, c]) =
        Inr [h div p, w div p, f]
      \<and> bindE (simple_conv_block (per_layer_config f d p))
           (\<lambda>env. bindE (conv_block env x1) shape_of) = Inr [h div p, w div p, f])
   \<and> ((\<forall>cfg benv bx by bsh. res_bottleneck_block cfg = Inr benv \<longrightarrow>
          bottleneck_block benv bx = Inr by \<longrightarrow> shape_of bx = Inr bsh \<longrightarrow>
          (\<exists>cx sh'. shape_of by = Inr sh' \<and> blk cfg bsh = Inr (cx, sh'))) \<longrightarrow>
      res_bottleneck_stage hp a = (hp1, Inr env) \<longrightarrow> stage env hp1 x = (hp2, Inr y) \<longrightarrow>
      shape_of x = Inr sh \<longrightarrow>
      (\<exists>sh'. shape_of y = Inr sh'
         \<and> map_sum id snd (snd (res_bottleneck_stage_complexity blk hp a sh)) = Inr sh'))"
proof -
  have simple: "map_sum id snd
        (simple_conv_stage_complexity cv nm pl (scalar_config f d p) [h, w, c]) =
        Inr [h div p, w div p, f]
      \<and> bindE (simple_conv_block (per_layer_config f d p))
           (\<lambda>env. bindE (conv_block env x1) shape_of) = Inr [h div p, w div p, f]"
    if cv: "\<forall>h' w' c' cx. \<exists>cx'. cv [h', w', c'] (VInt f) (VInt 3) cx = Inr (cx', [h', w', f])"
      and nm: "\<forall>h' w' c' cx. \<exists>cx'. nm [h', w', c'] cx = Inr (cx', [h', w', c'])"
      and pl: "\<forall>cx. \<exists>cx'. pl [h, w, f] (VInt p) VNone cx = Inr (cx', [h div p, w div p, f])"
      and sizes: "0 < f" "1 \<le> d" "0 < p" "p \<le> h" "p \<le> w"
      and x1: "shape_of x1 = Inr [h, w, c]"
  proof -
    have "map_sum id snd
        (simple_conv_stage_complexity cv nm pl (scalar_config f d p) [h, w, c]) =
        Inr [h div p, w div p, f]"
      using cv nm pl sizes(2) by (intro simple_conv_stage_complexity_contract) blast+
    moreover have "bindE (simple_conv_block (per_layer_config f d p))
           (\<lambda>env. bindE (conv_block env x1) shape_of) = Inr [h div p, w div p, f]"
      using sizes x1 by (rule conv_block_per_layer_shape)
    ultimately show ?thesis by blast
  qed
  have residual: "\<exists>sh'. shape_of y = Inr sh'
         \<and> map_sum id snd (snd (res_bottleneck_stage_complexity blk hp a sh)) = Inr sh'"
    if agree: "\<forall>cfg benv bx by bsh. res_bottleneck_block cfg = Inr benv \<longrightarrow>
          bottleneck_block benv bx = Inr by \<longrightarrow> shape_of bx = Inr bsh \<longrightarrow>
          (\<exists>cx sh'. shape_of by = Inr sh' \<and> blk cfg bsh = Inr (cx, sh'))"
      and built: "res_bottleneck_stage hp a = (hp1, Inr env)"
      and run: "stage env hp1 x = (hp2, Inr y)"
      and x: "shape_of x = Inr sh"
    using built run x by (rule res_bottleneck_stage_refines [rotated]) (use agree in blast)
  from simple residual show ?thesis by blast
qed

theorem stage_shapes_agree_witness:
  "map_sum id snd
     (simple_conv_stage_complexity conv2d_complexity_default norm_complexity pool2d_complexity
        (scalar_config 32 2 4) [64, 64, 3]) = Inr [16, 16, 32]
   \<and> bindE (simple_conv_block (per_layer_config 32 2 4))
        (\<lambda>env. bindE (conv_block env (Input [64, 64, 3])) shape_of) = Inr [16, 16, 32]
   \<and> (\<exists>y. snd (stage \<lparr>st_depth = VInt 3, st_model_config = 1\<rparr>
              [bottleneck_config, bottleneck_config] (Input [64, 64, 16])) = Inr y
          \<and> shape_of y = Inr [32, 32, 32])
   \<and> map_sum id snd (snd (res_bottleneck_stage_complexity res_bottleneck_block_complexity
        [bottleneck_config] 0 [64, 64, 16])) = Inr [32, 32, 32]"
proof -
  let ?env = "\<lparr>st_depth = VInt 3, st_model_config = 1\<rparr>"
  let ?h1 = "[bottleneck_config, bottleneck_config]"
  let ?x = "Input [64, 64, 16]"
  have built: "res_bottleneck_stage [bottleneck_config] 0 = (?h1, Inr ?env)"
    by (simp add: res_bottleneck_stage_def lookup_def bottleneck_config_def deepcopy_def)
  obtain h2 r where run: "stage ?env ?h1 ?x = (h2, r)"
    by (cases "stage ?env ?h1 ?x")
  with stage_example obtain y where r: "r = Inr y" and y: "shape_of y = Inr [32, 32, 32]"
    by (cases r) auto
  have x: "shape_of ?x = Inr [64, 64, 16]"
    by simp
  have cv: "\<forall>h' w' c' cx. \<exists>cx'. conv2d_complexity_default [h', w', c'] (VInt 32) (VInt 3) cx =
      Inr (cx', [h', w', 32])"
    using spec_primitives_contract(1) [of 32] by simp
  have nm: "\<forall>h' w' c' cx. \<exists>cx'. norm_complexity [h', w', c'] cx = Inr (cx', [h', w', c'])"
    using spec_primitives_contract(2) by blast
  have pl: "\<forall>cx. \<exists>cx'. pool2d_complexity [64, 64, 32] (VInt 4) VNone cx =
      Inr (cx', [64 div 4, 64 div 4, 32])"
    using spec_primitives_contract(3) [of 4 64 64 32] by simp
  have agree: "\<forall>cfg benv bx by bsh. res_bottleneck_block cfg = Inr benv \<longrightarrow>
          bottleneck_block benv bx = Inr by \<longrightarrow> shape_of bx = Inr bsh \<longrightarrow>
          (\<exists>cx sh'. shape_of by = Inr sh'
             \<and> res_bottleneck_block_complexity cfg bsh = Inr (cx, sh'))"
    using bottleneck_block_refines by blast
  note inst = stage_shapes_agree [of conv2d_complexity_default 32 norm_complexity
      pool2d_complexity 64 64 4 2 "Input [64, 64, 3]" 3 res_bottleneck_block_complexity
      "[bottleneck_config]" 0 ?h1 ?env ?x h2 y "[64, 64, 16]"]
  have simple: "map_sum id snd
     (simple_conv_stage_complexity conv2d_complexity_default norm_complexity pool2d_complexity
        (scalar_config 32 2 4) [64, 64, 3]) = Inr [16, 16, 32]
   \<and> bindE (simple_conv_block (per_layer_config 32 2 4))
        (\<lambda>env. bindE (conv_block env (Input [64, 64, 3])) shape_of) = Inr [16, 16, 32]"
    using inst cv nm pl by simp
  have "\<exists>sh'. shape_of y = Inr sh'
         \<and> map_sum id snd (snd (res_bottleneck_stage_complexity res_bottleneck_block_complexity
              [bottleneck_config] 0 [64, 64, 16])) = Inr sh'"
    using inst agree built run r x by simp
  with y have stage: "map_sum id snd (snd (res_bottleneck_stage_complexity
      res_bottleneck_block_complexity [bottleneck_config] 0 [64, 64, 16])) = Inr [32, 32, 32]"
    by auto
  from simple stage run r y show ?thesis by auto
qed

end
